theory Spec2Isabelle
  imports Complex_Main "HOL-Library.Word" "HOL-Library.Log_Nat"
begin

section \<open>Fingerprint matching service: the decision logic of match\_service2.py\<close>

text \<open>
  The embedding follows src/match\_service2.py. What the service computes with OpenCV,
  NumPy, FAISS, gzip, base64, json and PostgreSQL is taken as a parameter of the function
  that calls it; everything the repository's own code decides (thresholds, gates,
  reasons, index updates) is a definition below. The values that the module reads from
  the environment are the fields of a configuration record. A finite Python float is the
  rational number it denotes, and the arithmetic of floats rounds as IEEE 754 binary64
  does. Labels, which the source uses only in log lines, are shortened, and the log lines
  themselves are left out.
\<close>

subsection \<open>Python numbers\<close>

text \<open>Rounding to the nearest integer, a tie to the even one.\<close>

definition round_half_even :: "rat \<Rightarrow> int" where
  "round_half_even q =
     (let f = \<lfloor>q\<rfloor>; d = q - of_int f
      in if d < 1 / 2 then f
         else if 1 / 2 < d then f + 1
         else if even f then f else f + 1)"

text \<open>The binary exponent of a rational other than 0: the \<open>e\<close> with \<open>2^e \<le> |x| < 2^(e+1)\<close>.\<close>

definition expo :: "rat \<Rightarrow> int" where
  "expo x =
     (let (p, q) = quotient_of \<bar>x\<bar>; d = bitlen p - bitlen q
      in if 2 powi d \<le> \<bar>x\<bar> then d else d - 1)"

text \<open>
  The binary64 value nearest to a rational, ties to the even significand: 53 bits of
  significand, and the fixed spacing \<open>2^-1074\<close> below \<open>2^-1022\<close>.
\<close>

definition fl :: "rat \<Rightarrow> rat" where
  "fl x =
     (let e = max (expo x) (- 1022); q = 2 powi (e - 52)
      in of_int (round_half_even (x / q)) * q)"

text \<open>The float of a rational: \<open>None\<close> is an infinity (the rounded value is out of range).\<close>

definition to_float :: "rat \<Rightarrow> rat option" where
  "to_float x = (let y = fl x in if \<bar>y\<bar> < 2 ^ 1024 then Some y else None)"

text \<open>
  A float that may also be an infinity or a NaN: the entries of arrays and of JSON
  documents, and the distances of the matcher.
\<close>

datatype fval = Fin rat | PInf | NInf | NaN

text \<open>The double nearest to a rational, an infinity when out of range.\<close>

definition to_double :: "rat \<Rightarrow> fval" where
  "to_double x =
     (case to_float x of Some y \<Rightarrow> Fin y | None \<Rightarrow> if 0 < x then PInf else NInf)"

text \<open>The binary32 value nearest to a rational: 24 bits of significand, spacing \<open>2^-149\<close> below \<open>2^-126\<close>.\<close>

definition fl32 :: "rat \<Rightarrow> rat" where
  "fl32 x =
     (let e = max (expo x) (- 126); q = 2 powi (e - 23)
      in of_int (round_half_even (x / q)) * q)"

text \<open>A double stored as a 32-bit float (\<open>astype(np.float32)\<close>, a C \<open>float\<close> argument).\<close>

definition to_f32 :: "fval \<Rightarrow> fval" where
  "to_f32 v =
     (case v of
        Fin x \<Rightarrow> (let y = fl32 x
                  in if \<bar>y\<bar> < 2 ^ 128 then Fin y else if 0 < x then PInf else NInf)
      | _ \<Rightarrow> v)"

text \<open>\<open>a * v\<close> for a finite float \<open>a\<close>, and \<open>u < v\<close>.\<close>

definition fval_scale :: "rat \<Rightarrow> fval \<Rightarrow> fval" where
  "fval_scale a v =
     (case v of
        Fin x \<Rightarrow> to_double (a * x)
      | PInf \<Rightarrow> if 0 < a then PInf else if a < 0 then NInf else NaN
      | NInf \<Rightarrow> if 0 < a then NInf else if a < 0 then PInf else NaN
      | NaN \<Rightarrow> NaN)"

definition fval_less :: "fval \<Rightarrow> fval \<Rightarrow> bool" where
  "fval_less u v =
     (case (u, v) of
        (Fin x, Fin y) \<Rightarrow> x < y
      | (Fin x, PInf) \<Rightarrow> True
      | (NInf, Fin y) \<Rightarrow> True
      | (NInf, PInf) \<Rightarrow> True
      | _ \<Rightarrow> False)"

text \<open>Exceptions that cross a function boundary in the modelled code.\<close>

datatype py_exc =
    KeyError string
  | ValueError string
  | IndexError string
  | OverflowError string
  | LibError string
  | HTTPException int string

text \<open>Sequencing of steps that may raise.\<close>

definition andthen :: "py_exc + 'a \<Rightarrow> ('a \<Rightarrow> py_exc + 'b) \<Rightarrow> py_exc + 'b" where
  "andthen r f = (case r of Inl e \<Rightarrow> Inl e | Inr v \<Rightarrow> f v)"

text \<open>An int where a float is needed (\<open>int * float\<close>): too large an int raises.\<close>

definition int_to_float :: "int \<Rightarrow> py_exc + rat" where
  "int_to_float i =
     (case to_float (of_int i) of
        None \<Rightarrow> Inl (OverflowError ''int too large to convert to float'')
      | Some f \<Rightarrow> Inr f)"

text \<open>\<open>i * f\<close> for an int and a float.\<close>

definition int_times_float :: "int \<Rightarrow> rat \<Rightarrow> py_exc + rat option" where
  "int_times_float i f = andthen (int_to_float i) (\<lambda>a. Inr (to_float (a * f)))"

text \<open>Truncation towards zero.\<close>

definition py_trunc :: "rat \<Rightarrow> int" where
  "py_trunc f = (if 0 \<le> f then \<lfloor>f\<rfloor> else \<lceil>f\<rceil>)"

text \<open>\<open>int(x)\<close> on a float truncates towards zero; an infinity raises.\<close>

definition float_to_int :: "rat option \<Rightarrow> py_exc + int" where
  "float_to_int x =
     (case x of
        None \<Rightarrow> Inl (OverflowError ''cannot convert float infinity to integer'')
      | Some f \<Rightarrow> Inr (py_trunc f))"

text \<open>\<open>round(x)\<close> on a float; an infinity raises.\<close>

definition float_round :: "rat option \<Rightarrow> py_exc + int" where
  "float_round x =
     (case x of
        None \<Rightarrow> Inl (OverflowError ''cannot convert float infinity to integer'')
      | Some f \<Rightarrow> Inr (round_half_even f))"

text \<open>\<open>a / b\<close> for ints, \<open>b\<close> not 0: the quotient correctly rounded, or OverflowError.\<close>

definition int_true_div :: "int \<Rightarrow> int \<Rightarrow> py_exc + rat" where
  "int_true_div a b =
     (case to_float (of_int a / of_int b) of
        None \<Rightarrow> Inl (OverflowError ''integer division result too large for a float'')
      | Some f \<Rightarrow> Inr f)"

text \<open>\<open>round(x, 2)\<close> on a float of magnitude at most 100.\<close>

definition py_round2 :: "rat \<Rightarrow> rat" where
  "py_round2 x = fl (of_int (round_half_even (x * 100)) / 100)"

subsection \<open>Configuration (lines 84-100)\<close>

text \<open>
  The module-level parameters, each read from the environment with a default. A float
  parameter is a finite binary64 value.
\<close>

record config =
  FP_RATIO :: rat
  FP_MIN_BASE :: int
  FP_MIN_PERCENT :: rat
  FP_CONF_MIN :: rat
  FP_CONF_HIGH :: rat
  FP_MIN_KEYPOINTS :: int
  FP_MIN_KEYPOINTS_WARN :: int
  FP_HIGH_CONF_KP :: int
  FP_MARGIN_BASE :: int
  FP_MARGIN_PERCENT :: rat
  FP_ABS_MIN_SCORE :: int
  FP_SINGLE_TEMPLATE_MARGIN_MIN :: int
  FP_SINGLE_TEMPLATE_MARGIN_RATIO :: rat
  FP_FORCE_BASIC :: bool
  FP_TEMPLATE_USE_PROFESSIONAL :: bool
  FP_TEMPLATE_USE_FAST :: bool

text \<open>The defaults; \<open>fl\<close> of a decimal is the float that Python reads from its text.\<close>

definition default_config :: config where
  "default_config =
     \<lparr> FP_RATIO = fl (70 / 100), FP_MIN_BASE = 45, FP_MIN_PERCENT = fl (55 / 1000),
       FP_CONF_MIN = 65, FP_CONF_HIGH = 85, FP_MIN_KEYPOINTS = 200,
       FP_MIN_KEYPOINTS_WARN = 160, FP_HIGH_CONF_KP = 525, FP_MARGIN_BASE = 3,
       FP_MARGIN_PERCENT = fl (10 / 100), FP_ABS_MIN_SCORE = 45,
       FP_SINGLE_TEMPLATE_MARGIN_MIN = 5, FP_SINGLE_TEMPLATE_MARGIN_RATIO = fl (10 / 100),
       FP_FORCE_BASIC = False, FP_TEMPLATE_USE_PROFESSIONAL = True,
       FP_TEMPLATE_USE_FAST = False \<rparr>"

definition TOP_K_DEFAULT :: int where "TOP_K_DEFAULT = 5"

subsection \<open>Feature sets and match payloads (the dictionaries of the source)\<close>

text \<open>A descriptor matrix: a list of rows of floats.\<close>

type_synonym descriptors = "fval list list"

text \<open>A value that \<open>json.loads\<close> returns and \<open>json.dumps\<close> accepts.\<close>

datatype json =
    JNull
  | JBool bool
  | JInt int
  | JFloat fval
  | JStr string
  | JArr "json list"
  | JObj "(string \<times> json) list"

text \<open>The metadata dictionary of a deserialized template (lines 1002-1007).\<close>

record template_metadata =
  md_method :: json
  md_kp_count :: json
  md_roi_w :: json
  md_roi_h :: json

text \<open>
  A feature dictionary. A key that some constructor of the dictionary leaves out is an
  option whose \<open>None\<close> is the absent key: \<open>error\<close> is absent, \<open>None\<close> or a
  string, \<open>is_precomputed\<close> is absent or a boolean.
\<close>

record features =
  label :: string
  success :: bool
  keypoints :: nat
  descriptors :: "descriptors option"
  quality_flag :: bool
  quality_warn :: bool
  error :: "string option option"
  is_precomputed :: "bool option"
  metadata :: "template_metadata option"

record match_payload =
  accepted :: bool
  score :: int
  threshold_used :: int
  required_score :: int
  confidence :: rat
  confidence_required :: rat
  min_keypoints :: nat
  probe_keypoints :: nat
  template_keypoints :: nat
  probe_quality_ok :: bool
  template_quality_ok :: bool
  quality_warnings :: "string list"
  good_matches :: int
  reason :: "string option"
  p_is_precomputed :: "bool option"
  template_index :: "int option"
  employee_id :: "int option"
  num_templates_tested :: "nat option"
  all_template_scores :: "int list option"

subsection \<open>The libraries\<close>

text \<open>
  The libraries under the service, and the three flags that record which of them were
  imported. \<open>json_dumps\<close> is \<open>json.dumps(...).encode('utf-8')\<close>,
  \<open>json_loads\<close> is \<open>json.loads(bytes.decode('utf-8'))\<close>; \<open>b64encode\<close>
  is \<open>base64.b64encode(...).decode('utf-8')\<close>. A \<open>None\<close> is a raised
  exception. \<open>str_float\<close> and \<open>str_int\<close> are \<open>float\<close> and
  \<open>int\<close> on a string. \<open>decode_image_from_b64\<close> is the function of that name (lines
  675-710); \<open>enhance_fingerprint_professional\<close> takes the value of
  \<open>FP_FORCE_BASIC\<close> at the call; \<open>detect_and_compute\<close> is
  \<open>apply_morphological_operations\<close>, \<open>extract_fingerprint_roi\<close> and
  \<open>get_sift().detectAndCompute\<close>, giving the number of keypoints and the
  descriptors; \<open>knn_match\<close> is \<open>BF_MATCHER.knnMatch(..., k=2)\<close>, giving the
  distances of each pair; \<open>top_k_search\<close> is the search of \<open>find_top_k_candidates\<close>
  (FAISS, or \<open>np.argsort\<close> of the squared distances); \<open>np_mean_axis0\<close> is
  \<open>descriptors.mean(axis=0).astype(np.float32)\<close>, \<open>np_linalg_norm\<close> is
  \<open>np.linalg.norm\<close> and \<open>np_divide\<close> is the division of a vector by a scalar. An
  \<open>Inl\<close> is a raised exception. The flag \<open>FINGERPRINT_ENHANCER_AVAILABLE\<close>,
  which a failing enhancer call clears, is read from the record.
\<close>

type_synonym image = "nat list list"

record libs =
  json_dumps :: "json \<Rightarrow> nat list"
  json_loads :: "nat list \<Rightarrow> json option"
  gzip_compress :: "nat list \<Rightarrow> nat list"
  gzip_decompress :: "nat list \<Rightarrow> nat list option"
  b64encode :: "nat list \<Rightarrow> string"
  b64decode :: "string \<Rightarrow> nat list option"
  str_float :: "string \<Rightarrow> fval option"
  str_int :: "string \<Rightarrow> int option"
  decode_image_from_b64 :: "string \<Rightarrow> image option"
  enhance_fingerprint_professional :: "bool \<Rightarrow> image \<Rightarrow> image option"
  enhance_fingerprint_improved :: "image \<Rightarrow> image option"
  detect_and_compute :: "image \<Rightarrow> py_exc + (nat \<times> descriptors option)"
  knn_match :: "descriptors \<Rightarrow> descriptors \<Rightarrow> py_exc + fval list list"
  top_k_search :: "descriptors \<Rightarrow> fval list \<Rightarrow> int \<Rightarrow> py_exc + int list"
  np_mean_axis0 :: "descriptors \<Rightarrow> fval list"
  np_linalg_norm :: "fval list \<Rightarrow> fval"
  np_divide :: "fval list \<Rightarrow> fval \<Rightarrow> fval list"
  FINGERPRINT_ENHANCER_AVAILABLE :: bool
  PSYCOPG2_AVAILABLE :: bool
  FAISS_AVAILABLE :: bool

subsection \<open>Base payload\<close>

text \<open>\<open>d.get("error", default)\<close>: the default only when the key is absent.\<close>

definition get_error :: "features \<Rightarrow> string \<Rightarrow> string option" where
  "get_error f dflt = (case error f of None \<Rightarrow> Some dflt | Some e \<Rightarrow> e)"

text \<open>\<open>_base_match_payload\<close> (lines 1226-1246).\<close>

definition base_match_payload :: "config \<Rightarrow> nat \<Rightarrow> nat \<Rightarrow> match_payload" where
  "base_match_payload cfg probe_kp template_kp =
     \<lparr> accepted = False, score = 0, threshold_used = 0, required_score = 0,
       confidence = 0, confidence_required = FP_CONF_MIN cfg,
       min_keypoints = min probe_kp template_kp,
       probe_keypoints = probe_kp, template_keypoints = template_kp,
       probe_quality_ok = (FP_MIN_KEYPOINTS_WARN cfg \<le> int probe_kp),
       template_quality_ok = (FP_MIN_KEYPOINTS_WARN cfg \<le> int template_kp),
       quality_warnings = [], good_matches = 0, reason = None,
       p_is_precomputed = None, template_index = None, employee_id = None,
       num_templates_tested = None, all_template_scores = None \<rparr>"

subsection \<open>Threshold and margin (lines 1084-1094)\<close>

definition compute_threshold :: "config \<Rightarrow> nat \<Rightarrow> int option \<Rightarrow> py_exc + int" where
  "compute_threshold cfg min_kp override =
     (case override of
        Some ov \<Rightarrow> Inr (max 1 ov)
      | None \<Rightarrow>
          andthen (int_times_float (int min_kp) (FP_MIN_PERCENT cfg)) (\<lambda>product.
          andthen (float_to_int product) (\<lambda>v.
            (let dynamic = max (FP_MIN_BASE cfg) v in Inr (max dynamic 1)))))"

definition compute_margin :: "config \<Rightarrow> int \<Rightarrow> py_exc + int" where
  "compute_margin cfg threshold =
     andthen (int_times_float threshold (FP_MARGIN_PERCENT cfg)) (\<lambda>product.
     andthen (float_round product) (\<lambda>percent_margin.
       Inr (max (FP_MARGIN_BASE cfg) percent_margin)))"

subsection \<open>The matcher (lines 1248-1397)\<close>

text \<open>
  The ratio test over the pairs that \<open>BF_MATCHER.knnMatch(..., k=2)\<close> returns
  (lines 1296-1305); a pair is the list of its distances.
\<close>

definition ratio_test :: "config \<Rightarrow> fval list list \<Rightarrow> nat" where
  "ratio_test cfg matches =
     length (filter (\<lambda>pair. length pair = 2 \<and>
                            fval_less (pair ! 0) (fval_scale (FP_RATIO cfg) (pair ! 1)))
               matches)"

text \<open>Lines 1312-1314; the threshold is positive.\<close>

definition confidence_of :: "int \<Rightarrow> int \<Rightarrow> py_exc + rat" where
  "confidence_of sc threshold =
     (if 0 < threshold then
        andthen (int_true_div sc threshold) (\<lambda>q.
          Inr (case to_float (q * 100) of None \<Rightarrow> 100 | Some c \<Rightarrow> min 100 c))
      else Inr 0)"

text \<open>The payload once the score is known (lines 1320-1338).\<close>

definition scored_payload ::
  "match_payload \<Rightarrow> int \<Rightarrow> int \<Rightarrow> int \<Rightarrow> rat \<Rightarrow> rat \<Rightarrow> bool \<Rightarrow> match_payload" where
  "scored_payload payload sc threshold required conf conf_required is_pre =
     payload\<lparr> score := sc, good_matches := sc, threshold_used := threshold,
              required_score := required, confidence := py_round2 conf,
              confidence_required := conf_required,
              quality_warnings :=
                (if \<not> probe_quality_ok payload then [''probe_low_quality''] else []) @
                (if \<not> template_quality_ok payload then [''template_low_quality''] else []),
              p_is_precomputed := Some is_pre \<rparr>"

text \<open>
  The gates before the confidence gate (lines 1345-1389): the reason of the first
  violated one, or \<open>None\<close>. The floor for a precomputed template is computed, and may
  raise, only in non-strict mode and only for a precomputed template.
\<close>

definition score_gates ::
  "config \<Rightarrow> int \<Rightarrow> int \<Rightarrow> int \<Rightarrow> bool \<Rightarrow> bool \<Rightarrow> py_exc + string option" where
  "score_gates cfg sc threshold required is_pre strict_mode =
     (if strict_mode then
        Inr (if sc < FP_ABS_MIN_SCORE cfg then Some ''score_below_abs_min''
             else if sc < threshold then Some ''score_below_threshold''
             else if sc < required then Some ''insufficient_margin''
             else None)
      else
        andthen (if is_pre
                 then andthen (andthen (int_times_float (FP_ABS_MIN_SCORE cfg) (fl (85 / 100)))
                                 float_to_int)
                        (\<lambda>v. Inr (max 38 v))
                 else Inr (FP_ABS_MIN_SCORE cfg))
          (\<lambda>abs_min_for_precomputed.
             Inr (if sc < abs_min_for_precomputed then Some ''score_below_abs_min''
                  else if is_pre then
                    (let threshold_with_leniency = max abs_min_for_precomputed (threshold - 7)
                     in if sc < threshold_with_leniency then Some ''score_below_threshold''
                        else if sc < threshold_with_leniency + 3 then Some ''insufficient_margin''
                        else None)
                  else
                    (if sc < threshold then Some ''score_below_threshold''
                     else if sc < required then Some ''insufficient_margin''
                     else None))))"

text \<open>
  The acceptance policy (lines 1340-1397), on the payload already filled with the
  score: the first violated gate names the reason.
\<close>

definition acceptance_policy ::
  "config \<Rightarrow> match_payload \<Rightarrow> int \<Rightarrow> int \<Rightarrow> int \<Rightarrow> rat \<Rightarrow> rat \<Rightarrow> bool \<Rightarrow> bool \<Rightarrow>
   py_exc + match_payload" where
  "acceptance_policy cfg payload sc threshold required conf conf_required is_pre strict_mode =
     (if \<not> probe_quality_ok payload then Inr (payload\<lparr>reason := Some ''probe_low_quality''\<rparr>)
      else
        andthen (score_gates cfg sc threshold required is_pre strict_mode) (\<lambda>gate.
          case gate of
            Some r \<Rightarrow> Inr (payload\<lparr>reason := Some r\<rparr>)
          | None \<Rightarrow>
              if conf < conf_required then Inr (payload\<lparr>reason := Some ''confidence_low''\<rparr>)
              else Inr (payload\<lparr>accepted := True, reason := Some ''match''\<rparr>)))"

text \<open>
  \<open>match_feature_sets\<close>; an exception of \<open>knnMatch\<close> or of the arithmetic leaves
  the function.
\<close>

definition match_feature_sets ::
  "config \<Rightarrow> libs \<Rightarrow> features \<Rightarrow> features \<Rightarrow> int option \<Rightarrow> bool \<Rightarrow> py_exc + match_payload" where
  "match_feature_sets cfg lib probe_features template_feats threshold_override strict_mode =
     (let payload = base_match_payload cfg (keypoints probe_features) (keypoints template_feats)
      in if \<not> success probe_features then
           Inr (payload\<lparr>reason := get_error probe_features ''probe_features_error''\<rparr>)
         else if \<not> success template_feats then
           Inr (payload\<lparr>reason := get_error template_feats ''template_features_error''\<rparr>)
         else
           (case (descriptors probe_features, descriptors template_feats) of
              (Some des_probe, Some des_template) \<Rightarrow>
                if length des_probe < 10 \<or> length des_template < 10 then
                  Inr (payload\<lparr>reason := Some ''insufficient_descriptors''\<rparr>)
                else
                  andthen (knn_match lib des_probe des_template) (\<lambda>matches.
                    (let sc = int (ratio_test cfg matches);
                         min_kp = min_keypoints payload
                     in andthen (compute_threshold cfg min_kp threshold_override) (\<lambda>threshold.
                        andthen (compute_margin cfg threshold) (\<lambda>margin.
                        andthen (confidence_of sc threshold) (\<lambda>conf.
                          (let required = threshold + margin;
                               conf_required = (if FP_HIGH_CONF_KP cfg \<le> int min_kp
                                                then FP_CONF_HIGH cfg else FP_CONF_MIN cfg);
                               is_pre = (case is_precomputed template_feats of
                                           None \<Rightarrow> False | Some b \<Rightarrow> b)
                           in acceptance_policy cfg
                                (scored_payload payload sc threshold required conf
                                   conf_required is_pre)
                                sc threshold required conf conf_required is_pre strict_mode))))))
            | _ \<Rightarrow> Inr (payload\<lparr>reason := Some ''missing_descriptors''\<rparr>)))"

subsection \<open>Template codec (lines 880-1146)\<close>

text \<open>
  A \<open>cv2.KeyPoint\<close>: five floats, and two C ints. The floats of OpenCV and NumPy
  are 32-bit; widening one to a Python float and reading its \<open>repr\<close> back is exact,
  so the value is the same in both.
\<close>

record keypoint =
  kp_x :: fval
  kp_y :: fval
  kp_size :: fval
  kp_angle :: fval
  kp_response :: fval
  kp_octave :: "32 word"
  kp_class_id :: "32 word"

definition keypoint_json :: "keypoint \<Rightarrow> json" where
  "keypoint_json kp =
     JObj [(''x'', JFloat (kp_x kp)), (''y'', JFloat (kp_y kp)),
           (''size'', JFloat (kp_size kp)), (''angle'', JFloat (kp_angle kp)),
           (''response'', JFloat (kp_response kp)),
           (''octave'', JInt (sint (kp_octave kp))),
           (''class_id'', JInt (sint (kp_class_id kp)))]"

text \<open>\<open>descriptors.tolist()\<close>.\<close>

definition tolist :: "descriptors \<Rightarrow> json" where
  "tolist des = JArr (map (\<lambda>row. JArr (map JFloat row)) des)"

text \<open>The dictionary \<open>template_data\<close> of the encoder (lines 913-920); \<open>roi_shape\<close> is (height, width).\<close>

definition encode_template_data ::
  "keypoint list \<Rightarrow> descriptors \<Rightarrow> string \<Rightarrow> (int \<times> int) option \<Rightarrow> json" where
  "encode_template_data kps des enhancement_method roi_shape =
     JObj [(''method'', JStr enhancement_method),
           (''kp_count'', JInt (int (length kps))),
           (''roi_w'', (case roi_shape of None \<Rightarrow> JNull | Some (h, w) \<Rightarrow> JInt w)),
           (''roi_h'', (case roi_shape of None \<Rightarrow> JNull | Some (h, w) \<Rightarrow> JInt h)),
           (''kpts'', JArr (map keypoint_json kps)),
           (''des'', tolist des)]"

definition serialize_keypoints_descriptors ::
  "libs \<Rightarrow> keypoint list \<Rightarrow> descriptors option \<Rightarrow> string \<Rightarrow>
   (int \<times> int) option \<Rightarrow> string option" where
  "serialize_keypoints_descriptors lib kps des enhancement_method roi_shape =
     (case des of
        None \<Rightarrow> None
      | Some d \<Rightarrow>
          if kps = [] then None
          else Some (b64encode lib (gzip_compress lib (json_dumps lib
                       (encode_template_data kps d enhancement_method roi_shape)))))"

text \<open>\<open>float(v)\<close> and \<open>int(v)\<close> on a decoded JSON value; \<open>None\<close> is the TypeError, ValueError or OverflowError.\<close>

definition py_float :: "libs \<Rightarrow> json \<Rightarrow> fval option" where
  "py_float lib v =
     (case v of
        JInt i \<Rightarrow> (case int_to_float i of Inl e \<Rightarrow> None | Inr f \<Rightarrow> Some (Fin f))
      | JFloat f \<Rightarrow> Some f
      | JBool b \<Rightarrow> Some (Fin (if b then 1 else 0))
      | JStr s \<Rightarrow> str_float lib s
      | _ \<Rightarrow> None)"

definition py_int_of :: "libs \<Rightarrow> json \<Rightarrow> int option" where
  "py_int_of lib v =
     (case v of
        JInt i \<Rightarrow> Some i
      | JFloat (Fin r) \<Rightarrow> Some (py_trunc r)
      | JBool b \<Rightarrow> Some (if b then 1 else 0)
      | JStr s \<Rightarrow> str_int lib s
      | _ \<Rightarrow> None)"

text \<open>A Python int passed where \<open>cv2.KeyPoint\<close> takes a C int: out of range raises.\<close>

definition c_int :: "int \<Rightarrow> 32 word option" where
  "c_int i = (if - (2 ^ 31) \<le> i \<and> i < 2 ^ 31 then Some (word_of_int i) else None)"

text \<open>One iteration of the keypoint loop (lines 979-989); only a dictionary can be indexed by name.\<close>

definition decode_keypoint :: "libs \<Rightarrow> json \<Rightarrow> keypoint option" where
  "decode_keypoint lib kp_dict =
     (case kp_dict of
        JObj kv \<Rightarrow>
          (case (map_of kv ''x'', map_of kv ''y'', map_of kv ''size'', map_of kv ''angle'',
                 map_of kv ''response'', map_of kv ''octave'', map_of kv ''class_id'') of
             (Some vx, Some vy, Some vs, Some va, Some vr, Some vo, Some vc) \<Rightarrow>
               (case (py_float lib vx, py_float lib vy, py_float lib vs, py_float lib va,
                      py_float lib vr, Option.bind (py_int_of lib vo) c_int,
                      Option.bind (py_int_of lib vc) c_int) of
                  (Some x, Some y, Some s, Some a, Some r, Some oc, Some ci) \<Rightarrow>
                    Some \<lparr> kp_x = to_f32 x, kp_y = to_f32 y, kp_size = to_f32 s,
                           kp_angle = to_f32 a, kp_response = to_f32 r,
                           kp_octave = oc, kp_class_id = ci \<rparr>
                | _ \<Rightarrow> None)
           | _ \<Rightarrow> None)
      | _ \<Rightarrow> None)"

text \<open>All the elements of a list decoded, or the first failure.\<close>

fun map_option_all :: "('a \<Rightarrow> 'b option) \<Rightarrow> 'a list \<Rightarrow> 'b list option" where
  "map_option_all f [] = Some []"
| "map_option_all f (x # xs) =
     (case f x of
        None \<Rightarrow> None
      | Some y \<Rightarrow> (case map_option_all f xs of None \<Rightarrow> None | Some ys \<Rightarrow> Some (y # ys)))"

text \<open>What a \<open>for\<close> loop iterates over: the elements of a list, the characters of a string, the keys of a dictionary.\<close>

definition py_iter :: "json \<Rightarrow> json list option" where
  "py_iter v =
     (case v of
        JArr xs \<Rightarrow> Some xs
      | JStr s \<Rightarrow> Some (map (\<lambda>c. JStr [c]) s)
      | JObj kv \<Rightarrow> Some (map (\<lambda>p. JStr (fst p)) kv)
      | _ \<Rightarrow> None)"

text \<open>An entry of \<open>np.array(v, dtype=np.float32)\<close>: \<open>None\<close> in the list becomes NaN.\<close>

definition np_entry :: "libs \<Rightarrow> json \<Rightarrow> fval option" where
  "np_entry lib v = (case v of JNull \<Rightarrow> Some NaN | _ \<Rightarrow> map_option to_f32 (py_float lib v))"

text \<open>
  \<open>np.array(v, dtype=np.float32)\<close>. The arrays of the model are matrices: a list of
  rows of numbers, all of one length. On any other value the model takes the failure
  branch (NumPy raises on a ragged list, and builds an array of another rank otherwise).
\<close>

definition np_array_f32 :: "libs \<Rightarrow> json \<Rightarrow> descriptors option" where
  "np_array_f32 lib v =
     (case v of
        JArr rows \<Rightarrow>
          (case map_option_all
                  (\<lambda>row. case row of JArr xs \<Rightarrow> map_option_all (np_entry lib) xs | _ \<Rightarrow> None)
                  rows of
             None \<Rightarrow> None
           | Some m \<Rightarrow> if list_all (\<lambda>r. length r = length (hd m)) m then Some m else None)
      | _ \<Rightarrow> None)"

definition dict_get :: "(string \<times> json) list \<Rightarrow> string \<Rightarrow> json \<Rightarrow> json" where
  "dict_get kv k dflt = (case map_of kv k of None \<Rightarrow> dflt | Some v \<Rightarrow> v)"

text \<open>
  \<open>deserialize_keypoints_descriptors\<close>: \<open>None\<close> on every failure. A decoded
  value that is not a dictionary fails at the membership test or at the first lookup by
  name.
\<close>

definition deserialize_keypoints_descriptors ::
  "libs \<Rightarrow> string \<Rightarrow> (keypoint list \<times> descriptors \<times> template_metadata) option" where
  "deserialize_keypoints_descriptors lib b64_compressed_json =
     (if b64_compressed_json = [] \<or> length b64_compressed_json < 100 then None
      else
        (case b64decode lib b64_compressed_json of
           None \<Rightarrow> None
         | Some compressed \<Rightarrow>
             (case gzip_decompress lib compressed of
                None \<Rightarrow> None
              | Some json_bytes \<Rightarrow>
                  (case json_loads lib json_bytes of
                     Some (JObj kv) \<Rightarrow>
                       (case (map_of kv ''kpts'', map_of kv ''des'') of
                          (Some kpts, Some des) \<Rightarrow>
                            (case Option.bind (py_iter kpts) (map_option_all (decode_keypoint lib)) of
                               None \<Rightarrow> None
                             | Some kps \<Rightarrow>
                                 (case np_array_f32 lib des of
                                    None \<Rightarrow> None
                                  | Some d \<Rightarrow>
                                      Some (kps, d,
                                            \<lparr> md_method = dict_get kv ''method'' (JStr ''unknown''),
                                              md_kp_count = dict_get kv ''kp_count'' (JInt (int (length kps))),
                                              md_roi_w = dict_get kv ''roi_w'' JNull,
                                              md_roi_h = dict_get kv ''roi_h'' JNull \<rparr>)))
                        | _ \<Rightarrow> None)
                   | _ \<Rightarrow> None))))"

fun substring_in :: "string \<Rightarrow> string \<Rightarrow> bool" where
  "substring_in k [] = (k = [])"
| "substring_in k (c # cs) = (take (length k) (c # cs) = k \<or> substring_in k cs)"

text \<open>\<open>"kpts" in data and "des" in data\<close> on a decoded value; \<open>None\<close> is the TypeError of a value without membership test.\<close>

definition has_kpts_des :: "json \<Rightarrow> bool option" where
  "has_kpts_des data =
     (case data of
        JObj kv \<Rightarrow> Some (map_of kv ''kpts'' \<noteq> None \<and> map_of kv ''des'' \<noteq> None)
      | JArr xs \<Rightarrow> Some (JStr ''kpts'' \<in> set xs \<and> JStr ''des'' \<in> set xs)
      | JStr s \<Rightarrow> Some (substring_in ''kpts'' s \<and> substring_in ''des'' s)
      | _ \<Rightarrow> None)"

text \<open>The validation both branches of the classifier run (lines 1040-1045 and 1065-1071).\<close>

definition validate_template :: "libs \<Rightarrow> string \<Rightarrow> bool option" where
  "validate_template lib template_data =
     (case b64decode lib template_data of
        None \<Rightarrow> None
      | Some decoded \<Rightarrow>
          (case gzip_decompress lib decoded of
             None \<Rightarrow> None
           | Some decompressed \<Rightarrow>
               (case json_loads lib decompressed of
                  None \<Rightarrow> None
                | Some data \<Rightarrow> has_kpts_des data)))"

definition is_precomputed_template :: "libs \<Rightarrow> string \<Rightarrow> bool" where
  "is_precomputed_template lib template_data =
     (if template_data = [] \<or> length template_data < 100 then False
      else if take 4 template_data = ''H4sI'' then
        (case validate_template lib template_data of
           Some is_valid \<Rightarrow> is_valid
         | None \<Rightarrow> \<not> length template_data < 5000)
      else if 10000 < length template_data then
        (case validate_template lib template_data of
           Some is_valid \<Rightarrow> is_valid
         | None \<Rightarrow> False)
      else False)"

text \<open>\<open>load_precomputed_template\<close> (lines 1096-1146).\<close>

definition load_precomputed_template :: "config \<Rightarrow> libs \<Rightarrow> string \<Rightarrow> string \<Rightarrow> features" where
  "load_precomputed_template cfg lib b64_compressed_json lbl =
     (let result = \<lparr> label = lbl, success = False, keypoints = 0, descriptors = None,
                      quality_flag = False, quality_warn = False, error = Some None,
                      is_precomputed = Some True, metadata = None \<rparr>
      in case deserialize_keypoints_descriptors lib b64_compressed_json of
           None \<Rightarrow> result\<lparr>error := Some (Some ''deserialization_failed'')\<rparr>
         | Some (kps, des, md) \<Rightarrow>
             (let kp_count = length kps;
                  result2 = result\<lparr> keypoints := kp_count, descriptors := Some des,
                              quality_flag := (FP_MIN_KEYPOINTS cfg \<le> int kp_count),
                              quality_warn := (FP_MIN_KEYPOINTS_WARN cfg \<le> int kp_count),
                              success := (10 \<le> kp_count), metadata := Some md \<rparr>
              in if \<not> success result2
                 then result2\<lparr>error := Some (Some ''insufficient_features'')\<rparr>
                 else result2))"

subsection \<open>Feature extraction from an image (lines 1148-1224)\<close>

text \<open>
  \<open>prepare_features\<close>; \<open>force_basic\<close> is the value of the global
  \<open>FP_FORCE_BASIC\<close> during the call. An exception of the detector leaves the function.
\<close>

definition prepare_features ::
  "config \<Rightarrow> libs \<Rightarrow> bool \<Rightarrow> string \<Rightarrow> string \<Rightarrow> bool \<Rightarrow> py_exc + features" where
  "prepare_features cfg lib force_basic b64_string lbl use_fast_enhancement =
     (let result = \<lparr> label = lbl, success = False, keypoints = 0, descriptors = None,
                      quality_flag = False, quality_warn = False, error = Some None,
                      is_precomputed = None, metadata = None \<rparr>
      in case decode_image_from_b64 lib b64_string of
           None \<Rightarrow> Inr (result\<lparr>error := Some (Some ''decode_failed'')\<rparr>)
         | Some img \<Rightarrow>
             (case (if use_fast_enhancement \<and> FP_TEMPLATE_USE_FAST cfg
                       \<and> \<not> FP_TEMPLATE_USE_PROFESSIONAL cfg
                    then enhance_fingerprint_improved lib img
                    else enhance_fingerprint_professional lib force_basic img) of
                None \<Rightarrow> Inr (result\<lparr>error := Some (Some ''enhancement_failed'')\<rparr>)
              | Some enhanced \<Rightarrow>
                  andthen (detect_and_compute lib enhanced) (\<lambda>(kp_count, des).
                    (let result2 = result\<lparr> keypoints := kp_count, descriptors := des,
                                     quality_flag := (FP_MIN_KEYPOINTS cfg \<le> int kp_count),
                                     quality_warn := (FP_MIN_KEYPOINTS_WARN cfg \<le> int kp_count),
                                     success := (des \<noteq> None \<and> 10 \<le> kp_count) \<rparr>
                     in if \<not> success result2
                        then Inr (result2\<lparr>error := Some (Some ''insufficient_features'')\<rparr>)
                        else Inr result2))))"

subsection \<open>Multi-template verification (lines 1579-1956)\<close>

definition exc_str :: "py_exc \<Rightarrow> string" where
  "exc_str e = (case e of KeyError s \<Rightarrow> s | ValueError s \<Rightarrow> s | IndexError s \<Rightarrow> s
                | OverflowError s \<Rightarrow> s | LibError s \<Rightarrow> s | HTTPException c s \<Rightarrow> s)"

text \<open>
  \<open>np.frombuffer(bytes, dtype=np.float32).reshape(-1, 128)\<close> on the bytes of a matrix:
  its entries in row order, cut into rows of 128.
\<close>

definition reshape128 :: "descriptors \<Rightarrow> py_exc + descriptors" where
  "reshape128 des =
     (let flat = concat des
      in if length flat mod 128 \<noteq> 0 then Inl (ValueError ''cannot reshape array'')
         else Inr (map (\<lambda>i. take 128 (drop (128 * i) flat)) [0..<length flat div 128]))"

text \<open>The payload of a worker that did not reach the matcher (lines 1599-1600, 1614-1618, 1648-1652).\<close>

definition unmatched_payload :: "config \<Rightarrow> nat \<Rightarrow> nat \<Rightarrow> nat \<Rightarrow> string option \<Rightarrow> match_payload" where
  "unmatched_payload cfg probe_kp template_kp idx why =
     (base_match_payload cfg probe_kp template_kp)
       \<lparr> reason := why, template_index := Some (int idx) \<rparr>"

text \<open>
  \<open>_process_single_template\<close>. The probe travels as the bytes of its descriptor
  matrix (\<open>None\<close> when there is no matrix; empty bytes are falsy). The reshape is
  outside the \<open>try\<close>: its exception is the exception of the future. Inside the
  \<open>try\<close> every exception becomes a payload.
\<close>

definition process_single_template ::
  "config \<Rightarrow> libs \<Rightarrow> nat \<Rightarrow> string \<Rightarrow> descriptors option \<Rightarrow> nat \<Rightarrow> bool \<Rightarrow> int option \<Rightarrow>
   py_exc + (nat \<times> match_payload)" where
  "process_single_template cfg lib idx template_data probe_descriptors_bytes probe_kp
     probe_quality threshold_override =
     andthen (case probe_descriptors_bytes of
                None \<Rightarrow> Inr None
              | Some b \<Rightarrow> if concat b = [] then Inr None
                          else andthen (reshape128 b) (\<lambda>d. Inr (Some d)))
       (\<lambda>probe_descriptors.
          (let probe_features =
                 \<lparr> label = ''probe'',
                   success = (case probe_descriptors of None \<Rightarrow> False | Some d \<Rightarrow> 0 < length d),
                   keypoints = probe_kp, descriptors = probe_descriptors,
                   quality_flag = (FP_MIN_KEYPOINTS cfg \<le> int probe_kp),
                   quality_warn = (FP_MIN_KEYPOINTS_WARN cfg \<le> int probe_kp),
                   error = None, is_precomputed = None, metadata = None \<rparr>;
               failed = (\<lambda>e. unmatched_payload cfg probe_kp 0 idx
                                (Some (''processing_error: '' @ exc_str e)));
               run_match = (\<lambda>template_feats.
                  case match_feature_sets cfg lib probe_features template_feats
                         threshold_override False of
                    Inl e \<Rightarrow> failed e
                  | Inr result \<Rightarrow>
                      result\<lparr> template_index := Some (int idx),
                              p_is_precomputed :=
                                Some (case is_precomputed template_feats of
                                        None \<Rightarrow> False | Some b \<Rightarrow> b) \<rparr>)
           in if template_data = [] then
                Inr (idx, unmatched_payload cfg probe_kp 0 idx (Some ''empty_template''))
              else if is_precomputed_template lib template_data then
                (let template_feats =
                       load_precomputed_template cfg lib template_data ''template''
                 in if \<not> success template_feats then
                      Inr (idx, unmatched_payload cfg probe_kp (keypoints template_feats) idx
                                  (get_error template_feats ''precomputed_load_failed''))
                    else Inr (idx, run_match template_feats))
              else
                (case prepare_features cfg lib (FP_FORCE_BASIC cfg) template_data ''template'' False of
                   Inl e \<Rightarrow> Inr (idx, failed e)
                 | Inr template_feats \<Rightarrow> Inr (idx, run_match template_feats))))"

text \<open>\<open>FP_CONF_HIGH + 15\<close>: \<open>None\<close> is an infinity, which no confidence reaches.\<close>

definition early_exit_confidence :: "config \<Rightarrow> rat option" where
  "early_exit_confidence cfg = to_float (FP_CONF_HIGH cfg + 15)"

definition reaches_early_exit :: "config \<Rightarrow> match_payload \<Rightarrow> bool" where
  "reaches_early_exit cfg result =
     (accepted result \<and>
      (case early_exit_confidence cfg of None \<Rightarrow> False | Some c \<Rightarrow> c \<le> confidence result))"

text \<open>
  The collection loop over \<open>as_completed\<close> (lines 1724-1774). \<open>outcome i\<close> is what
  the future of template \<open>i\<close> returns or raises; the list is the order in which the
  futures complete. The result is the dictionary of collected results and the flag
  \<open>high_confidence_match_found\<close>; what the loop leaves uncollected (the \<open>break\<close>)
  are the cancelled and the abandoned futures.
\<close>

definition future_error_payload :: "config \<Rightarrow> nat \<Rightarrow> nat \<Rightarrow> py_exc \<Rightarrow> match_payload" where
  "future_error_payload cfg probe_kp idx e =
     unmatched_payload cfg probe_kp 0 idx (Some (''future_error: '' @ exc_str e))"

fun collect_results ::
  "config \<Rightarrow> nat \<Rightarrow> nat \<Rightarrow> (nat \<Rightarrow> py_exc + (nat \<times> match_payload)) \<Rightarrow> nat list \<Rightarrow>
   (nat \<rightharpoonup> match_payload) \<Rightarrow> (nat \<rightharpoonup> match_payload) \<times> bool" where
  "collect_results cfg probe_kp total_count outcome [] d = (d, False)"
| "collect_results cfg probe_kp total_count outcome (f # pending) d =
     (case outcome f of
        Inl e \<Rightarrow>
          collect_results cfg probe_kp total_count outcome pending
            (d(f \<mapsto> future_error_payload cfg probe_kp f e))
      | Inr (idx, result) \<Rightarrow>
          (let d' = d(idx \<mapsto> result)
           in if reaches_early_exit cfg result then
                (if 3 \<le> total_count then (d', True)
                 else collect_results cfg probe_kp total_count outcome pending d')
              else collect_results cfg probe_kp total_count outcome pending d'))"

text \<open>The key under which the loop stores what the future of template \<open>f\<close> gives.\<close>

definition stored_key :: "(nat \<Rightarrow> py_exc + (nat \<times> match_payload)) \<Rightarrow> nat \<Rightarrow> nat" where
  "stored_key outcome f = (case outcome f of Inl e \<Rightarrow> f | Inr (idx, result) \<Rightarrow> idx)"

text \<open>Lines 1777-1797: the missing results are filled in, and the results listed by index.\<close>

definition fill_results :: "config \<Rightarrow> nat \<Rightarrow> nat \<Rightarrow> (nat \<rightharpoonup> match_payload) \<Rightarrow> match_payload list" where
  "fill_results cfg probe_kp total_count d =
     map (\<lambda>idx. case d idx of
                  Some r \<Rightarrow> r
                | None \<Rightarrow> unmatched_payload cfg probe_kp 0 idx (Some ''cancelled_early_exit''))
         [0..<total_count]"

text \<open>The order of preference of lines 1806-1811, used again at lines 2089-2097.\<close>

definition better :: "match_payload \<Rightarrow> match_payload \<Rightarrow> bool" where
  "better result best =
     ((accepted result \<and> \<not> accepted best) \<or>
      (accepted result \<and> accepted best \<and> score best < score result) \<or>
      (\<not> accepted best \<and> score best < score result))"

text \<open>The best result with its position: \<open>candidate is best_result\<close> compares positions.\<close>

fun select_best ::
  "match_payload list \<Rightarrow> nat \<Rightarrow> (nat \<times> match_payload) option \<Rightarrow> (nat \<times> match_payload) option" where
  "select_best [] i best = best"
| "select_best (r # rs) i best =
     select_best rs (Suc i)
       (case best of
          None \<Rightarrow> Some (i, r)
        | Some (bi, b) \<Rightarrow> if better r b then Some (i, r) else Some (bi, b))"

definition non_empty_reasons :: "string option list" where
  "non_empty_reasons =
     [Some ''empty_template'', Some ''decode_failed'', Some ''enhancement_failed'',
      Some ''insufficient_features'', Some ''cancelled_early_exit'']"

text \<open>\<open>non_empty_templates\<close> (lines 1813-1816), each with its position in the results.\<close>

definition non_empty_templates :: "match_payload list \<Rightarrow> (nat \<times> match_payload) list" where
  "non_empty_templates results =
     filter (\<lambda>(i, r). reason r \<notin> set non_empty_reasons) (zip [0..<length results] results)"

fun best_secondary ::
  "(nat \<times> match_payload) list \<Rightarrow> nat \<Rightarrow> int \<Rightarrow> match_payload option \<Rightarrow> match_payload option" where
  "best_secondary [] bi best_secondary_score secondary_support = secondary_support"
| "best_secondary ((i, candidate) # cs) bi best_secondary_score secondary_support =
     (if i = bi then best_secondary cs bi best_secondary_score secondary_support
      else if best_secondary_score < score candidate
           then best_secondary cs bi (score candidate) (Some candidate)
           else best_secondary cs bi best_secondary_score secondary_support)"

text \<open>\<open>max(45, int(secondary_threshold * c))\<close> for the literal \<open>c\<close> (0.85 or 0.80).\<close>

definition secondary_min_threshold :: "int \<Rightarrow> rat \<Rightarrow> py_exc + int" where
  "secondary_min_threshold secondary_threshold c =
     andthen (andthen (int_times_float secondary_threshold (fl c)) float_to_int)
       (\<lambda>v. Inr (max 45 v))"

text \<open>\<open>secondary_valid\<close> of lines 1858-1880.\<close>

definition secondary_valid :: "config \<Rightarrow> match_payload \<Rightarrow> match_payload \<Rightarrow> py_exc + bool" where
  "secondary_valid cfg best secondary_support =
     (let support_score = score secondary_support;
          support_required = required_score secondary_support;
          primary_score = score best;
          secondary_threshold = threshold_used secondary_support
      in if 70 \<le> primary_score then
           andthen (secondary_min_threshold secondary_threshold (85 / 100)) (\<lambda>min_threshold.
             Inr (45 \<le> support_score \<and> min_threshold \<le> support_score))
         else if 60 \<le> primary_score then
           andthen (secondary_min_threshold secondary_threshold (80 / 100)) (\<lambda>min_threshold.
             (let secondary_is_precomputed =
                    (case p_is_precomputed secondary_support of None \<Rightarrow> False | Some b \<Rightarrow> b)
              in if secondary_is_precomputed then
                   Inr ((support_required - 2 \<le> support_score \<and> 45 \<le> support_score)
                        \<or> min_threshold \<le> support_score)
                 else Inr (45 \<le> support_score \<and> min_threshold \<le> support_score)))
         else Inr (accepted secondary_support \<and> FP_ABS_MIN_SCORE cfg \<le> support_score))"

definition support_floor :: "config \<Rightarrow> match_payload \<Rightarrow> match_payload \<Rightarrow> int" where
  "support_floor cfg best secondary_support =
     (if 60 \<le> score best then max (required_score secondary_support) 45
      else max (required_score secondary_support) (FP_ABS_MIN_SCORE cfg))"

record mt_response =
  resp_accepted :: bool
  decision_reason :: "string option"
  resp_probe_keypoints :: nat
  resp_probe_quality_ok :: bool
  quality_warning :: "string option"
  template_results :: "match_payload list"
  best_result :: "match_payload option"
  best_template_index :: "int option"
  best_score :: "int option"
  secondary_support_score :: "int option"
  secondary_support_floor :: "int option"
  early_exit_used :: bool

text \<open>
  A rejection after the tentative acceptance: the response and the best result, which is
  the same object as its entry in \<open>template_results\<close>, are both updated.
\<close>

definition reject_best :: "mt_response \<Rightarrow> nat \<Rightarrow> string \<Rightarrow> mt_response" where
  "reject_best response bi why =
     response\<lparr> resp_accepted := False, decision_reason := Some why,
               best_result := map_option (\<lambda>b. b\<lparr>reason := Some why, accepted := False\<rparr>)
                                (best_result response),
               template_results :=
                 (if bi < length (template_results response)
                  then (template_results response)
                         [bi := (template_results response ! bi)
                                  \<lparr>reason := Some why, accepted := False\<rparr>]
                  else template_results response) \<rparr>"

text \<open>The decision of lines 1799-1928 on the list of results; an exception of the arithmetic leaves it.\<close>

definition finalize_templates ::
  "config \<Rightarrow> match_payload list \<Rightarrow> mt_response \<Rightarrow> py_exc + mt_response" where
  "finalize_templates cfg results response0 =
     (let response = response0\<lparr>template_results := results\<rparr>
      in case select_best results 0 None of
           None \<Rightarrow> Inr (response\<lparr>decision_reason := Some ''no_templates_evaluados''\<rparr>)
         | Some (bi, best) \<Rightarrow>
             (let template_count = length (non_empty_templates results);
                  secondary_support =
                    (if 2 \<le> template_count
                     then best_secondary (non_empty_templates results) bi (- 1) None
                     else None);
                  response1 = response\<lparr> best_result := Some best,
                                best_template_index := template_index best,
                                best_score := Some (score best),
                                resp_accepted := accepted best,
                                decision_reason :=
                                  (if accepted best then Some ''match_found'' else reason best) \<rparr>;
                  primary_margin = score best - required_score best
              in if accepted best then
                   (if 2 \<le> template_count then
                      (case secondary_support of
                         Some sec \<Rightarrow>
                           andthen (secondary_valid cfg best sec) (\<lambda>valid.
                             (let response2 = response1
                                    \<lparr> secondary_support_score := Some (score sec),
                                      secondary_support_floor := Some (support_floor cfg best sec) \<rparr>;
                                  primary_is_precomputed =
                                    (case p_is_precomputed best of None \<Rightarrow> False | Some b \<Rightarrow> b);
                                  min_primary_margin = (if primary_is_precomputed then 3 else 5)
                              in if \<not> valid \<or> primary_margin < min_primary_margin
                                 then Inr (reject_best response2 bi ''secondary_template_disagrees'')
                                 else Inr response2))
                       | None \<Rightarrow> Inr (reject_best response1 bi ''secondary_template_required''))
                    else
                      andthen (andthen (int_times_float (required_score best)
                                          (FP_SINGLE_TEMPLATE_MARGIN_RATIO cfg))
                                 float_round)
                        (\<lambda>rounded.
                           (let dynamic_margin = max (FP_SINGLE_TEMPLATE_MARGIN_MIN cfg) rounded;
                                required_plus_margin = required_score best + dynamic_margin
                            in if score best < required_plus_margin
                               then Inr (reject_best response1 bi ''single_template_margin'')
                               else Inr response1)))
                 else Inr response1))"

text \<open>
  \<open>match_templates\<close>. \<open>order\<close> is the order in which the futures complete. The
  outer handler turns every exception but an HTTPException into status 500.
\<close>

definition match_templates ::
  "config \<Rightarrow> libs \<Rightarrow> nat list \<Rightarrow> string \<Rightarrow> string list \<Rightarrow> int option \<Rightarrow> py_exc + mt_response" where
  "match_templates cfg lib order probe_image_b64 templates_b64 threshold_override =
     (if templates_b64 = [] then
        Inl (HTTPException 400 ''Se requiere al menos un template para comparar'')
      else
        (case prepare_features cfg lib (FP_FORCE_BASIC cfg) probe_image_b64 ''probe'' False of
           Inl e \<Rightarrow> Inl (HTTPException 500 (''Error interno: '' @ exc_str e))
         | Inr probe_features \<Rightarrow>
             (let probe_kp = keypoints probe_features;
                  response = \<lparr> resp_accepted = False, decision_reason = None,
                               resp_probe_keypoints = probe_kp,
                               resp_probe_quality_ok = (FP_MIN_KEYPOINTS_WARN cfg \<le> int probe_kp),
                               quality_warning = None, template_results = [],
                               best_result = None, best_template_index = None,
                               best_score = None, secondary_support_score = None,
                               secondary_support_floor = None, early_exit_used = False \<rparr>
              in if \<not> success probe_features then
                   Inr (response\<lparr> decision_reason := get_error probe_features ''probe_processing_error'',
                                   quality_warning := get_error probe_features ''probe_processing_error'' \<rparr>)
                 else if \<not> resp_probe_quality_ok response then
                   Inr (response\<lparr> decision_reason := Some ''probe_low_quality'',
                                   quality_warning := Some ''probe_low_quality'' \<rparr>)
                 else
                   (let total_count = length templates_b64;
                        outcome = (\<lambda>i. process_single_template cfg lib i (templates_b64 ! i)
                                          (descriptors probe_features) probe_kp
                                          (FP_MIN_KEYPOINTS_WARN cfg \<le> int probe_kp)
                                          threshold_override);
                        (d, high_confidence_match_found) =
                          collect_results cfg probe_kp total_count outcome order Map.empty;
                        results = fill_results cfg probe_kp total_count d
                    in case finalize_templates cfg results
                              (response\<lparr>early_exit_used := high_confidence_match_found\<rparr>) of
                         Inl e \<Rightarrow> Inl (HTTPException 500 (''Error interno: '' @ exc_str e))
                       | Inr r \<Rightarrow> Inr r))))"

subsection \<open>The in-memory employee index (lines 158-165, 213-673)\<close>

text \<open>
  An entry of \<open>EMPLOYEE_TEMPLATES\<close>. The full rebuild stores the keys
  \<open>employee_id\<close>, \<open>template_features_list\<close> and \<open>num_templates\<close>; the incremental
  add stores \<open>employee_id\<close> and \<open>template_features\<close>. An absent key is \<open>None\<close>.
\<close>

record template_entry =
  entry_employee_id :: int
  template_features_list :: "features list option"
  num_templates :: "nat option"
  template_features :: "features option"

text \<open>The globals of the index. The FAISS index is the matrix of the vectors added to it.\<close>

record index_state =
  EMPLOYEE_VECTORS :: "descriptors option"
  EMPLOYEE_TEMPLATES :: "template_entry list"
  EMPLOYEE_IDS :: "int list"
  EMPLOYEE_INDEX_READY :: bool
  FAISS_INDEX :: "descriptors option"

text \<open>A row of the query of the rebuild (lines 255-268); \<open>None\<close> is NULL.\<close>

record db_row =
  id_empleado :: int
  row_num_templates :: "int option"
  huella_gzip_1 :: "string option"
  huella_gzip_2 :: "string option"
  huella_gzip_3 :: "string option"
  huella_gzip_4 :: "string option"
  huella_1 :: "string option"
  huella_2 :: "string option"
  huella_3 :: "string option"
  huella_4 :: "string option"

text \<open>The row of the query of the incremental add (lines 532-540).\<close>

record sync_row =
  sync_id_empleado :: int
  huella_gzip :: "string option"
  huella :: "string option"

definition ncols :: "descriptors \<Rightarrow> nat" where
  "ncols m = (case m of [] \<Rightarrow> 0 | r # _ \<Rightarrow> length r)"

text \<open>
  \<open>descriptors_to_vector\<close> (lines 213-225): the mean of the rows, divided by its
  norm when \<open>norm > 0\<close>.
\<close>

definition descriptors_to_vector :: "libs \<Rightarrow> descriptors option \<Rightarrow> fval list option" where
  "descriptors_to_vector lib des =
     (case des of
        None \<Rightarrow> None
      | Some d \<Rightarrow>
          if length d = 0 then None
          else (let vec = np_mean_axis0 lib d; norm = np_linalg_norm lib vec
                in Some (if fval_less (Fin 0) norm then np_divide lib vec norm else vec)))"

text \<open>\<open>np.vstack\<close> of matrices and \<open>np.stack\<close> of vectors raise when the widths differ.\<close>

definition np_vstack :: "descriptors list \<Rightarrow> descriptors option" where
  "np_vstack ms =
     (case ms of
        [] \<Rightarrow> None
      | m # _ \<Rightarrow> if list_all (\<lambda>x. ncols x = ncols m) ms then Some (concat ms) else None)"

definition np_stack :: "fval list list \<Rightarrow> descriptors option" where
  "np_stack vs =
     (case vs of
        [] \<Rightarrow> None
      | v # _ \<Rightarrow> if list_all (\<lambda>x. length x = length v) vs then Some vs else None)"

text \<open>\<open>not s or s.strip() == ""\<close>.\<close>

definition py_blank :: "string \<Rightarrow> bool" where
  "py_blank s =
     list_all (\<lambda>c. c \<in> set [CHR 0x20, CHR 0x09, CHR 0x0A, CHR 0x0B, CHR 0x0C, CHR 0x0D,
                             CHR 0x1C, CHR 0x1D, CHR 0x1E, CHR 0x1F]) s"

definition or_empty :: "string option \<Rightarrow> string" where
  "or_empty v = (case v of None \<Rightarrow> [] | Some s \<Rightarrow> s)"

text \<open>The feature dictionary built from an image stored in the database (lines 367-376 and 583-592).\<close>

definition image_features :: "config \<Rightarrow> string \<Rightarrow> nat \<Rightarrow> descriptors \<Rightarrow> features" where
  "image_features cfg lbl kp_count des =
     \<lparr> label = lbl, success = True, keypoints = kp_count, descriptors = Some des,
       quality_flag = (FP_MIN_KEYPOINTS cfg \<le> int kp_count),
       quality_warn = (FP_MIN_KEYPOINTS_WARN cfg \<le> int kp_count),
       error = Some None, is_precomputed = Some False, metadata = None \<rparr>"

text \<open>
  The extraction of features from a stored PNG (lines 345-383 and 559-593);
  \<open>use_improved\<close> says whether the fallback enhancer is used.
\<close>

definition png_features :: "config \<Rightarrow> libs \<Rightarrow> bool \<Rightarrow> string \<Rightarrow> string \<Rightarrow> features option" where
  "png_features cfg lib use_improved lbl huella_png_value =
     (case decode_image_from_b64 lib huella_png_value of
        None \<Rightarrow> None
      | Some img \<Rightarrow>
          (case (if use_improved then enhance_fingerprint_improved lib img
                 else enhance_fingerprint_professional lib (FP_FORCE_BASIC cfg) img) of
             None \<Rightarrow> None
           | Some enhanced \<Rightarrow>
               (case detect_and_compute lib enhanced of
                  Inl e \<Rightarrow> None
                | Inr (kp_count, None) \<Rightarrow> None
                | Inr (kp_count, Some des) \<Rightarrow>
                    if kp_count = 0 then None
                    else Some (image_features cfg lbl kp_count des))))"

text \<open>
  One template slot of one employee in the rebuild (the body of the loop of lines
  310-408); \<open>None\<close> is a \<open>continue\<close>. The counters of \<open>stats\<close> are only logged
  and are left out.
\<close>

definition load_slot :: "config \<Rightarrow> libs \<Rightarrow> string \<Rightarrow> string \<Rightarrow> string \<Rightarrow> features option" where
  "load_slot cfg lib lbl huella_gzip_value huella_png_value =
     (if py_blank huella_gzip_value \<and> py_blank huella_png_value then None
      else
        (case (if huella_gzip_value \<noteq> [] \<and> 10 \<le> length huella_gzip_value then
                 (if take 4 huella_gzip_value = ''H4sI''
                  then Some (load_precomputed_template cfg lib huella_gzip_value lbl)
                  else None)
               else if huella_png_value \<noteq> [] \<and> 10 \<le> length huella_png_value
                       \<and> take 5 huella_png_value = ''iVBOR'' then
                 png_features cfg lib (\<not> FINGERPRINT_ENHANCER_AVAILABLE lib) lbl huella_png_value
               else None) of
           None \<Rightarrow> None
         | Some t_features \<Rightarrow>
             if \<not> success t_features then None
             else (case descriptors t_features of
                     None \<Rightarrow> None
                   | Some des \<Rightarrow> if length des = 0 then None else Some t_features)))"

text \<open>The templates of one employee that the rebuild loads (lines 293-408).\<close>

definition employee_templates :: "config \<Rightarrow> libs \<Rightarrow> db_row \<Rightarrow> features list" where
  "employee_templates cfg lib row =
     (let huella_gzip_values = map or_empty [huella_gzip_1 row, huella_gzip_2 row,
                                             huella_gzip_3 row, huella_gzip_4 row];
          huella_png_values = map or_empty [huella_1 row, huella_2 row, huella_3 row, huella_4 row]
      in List.map_filter (\<lambda>(g, p). load_slot cfg lib ''emp'' g p)
           (zip huella_gzip_values huella_png_values))"

text \<open>The aggregated embedding of lines 423-431; \<open>None\<close> where the source has \<open>vec = None\<close>.\<close>

definition employee_embedding :: "libs \<Rightarrow> features list \<Rightarrow> fval list option" where
  "employee_embedding lib employee_template_features =
     Option.bind
       (np_vstack (map (\<lambda>tf. case descriptors tf of None \<Rightarrow> [] | Some d \<Rightarrow> d)
                     employee_template_features))
       (\<lambda>all_descriptors. descriptors_to_vector lib (Some all_descriptors))"

text \<open>One employee of the rebuild (lines 289-446): the entry and its embedding, or \<open>None\<close> when the employee is skipped.\<close>

definition load_employee :: "config \<Rightarrow> libs \<Rightarrow> db_row \<Rightarrow> (template_entry \<times> fval list) option" where
  "load_employee cfg lib row =
     (let emp_id = id_empleado row;
          employee_template_features = employee_templates cfg lib row
      in if length employee_template_features = 0 then None
         else
           (case employee_embedding lib employee_template_features of
              None \<Rightarrow> None
            | Some vec \<Rightarrow>
                Some (\<lparr> entry_employee_id = emp_id,
                        template_features_list = Some employee_template_features,
                        num_templates = Some (length employee_template_features),
                        template_features = None \<rparr>, vec)))"

definition cleared_index :: index_state where
  "cleared_index =
     \<lparr> EMPLOYEE_VECTORS = None, EMPLOYEE_TEMPLATES = [], EMPLOYEE_IDS = [],
       EMPLOYEE_INDEX_READY = False, FAISS_INDEX = None \<rparr>"

text \<open>
  \<open>rebuild_employee_index\<close>. \<open>db\<close> is what connecting and running the query gives:
  the rows, or the exception raised. The result is the returned flag and the globals
  after the call.
\<close>

definition rebuild_employee_index ::
  "config \<Rightarrow> libs \<Rightarrow> py_exc + db_row list \<Rightarrow> index_state \<Rightarrow> bool \<times> index_state" where
  "rebuild_employee_index cfg lib db st =
     (if \<not> PSYCOPG2_AVAILABLE lib then (False, st\<lparr>EMPLOYEE_INDEX_READY := False\<rparr>)
      else
        (case db of
           Inl e \<Rightarrow> (False, cleared_index)
         | Inr rows \<Rightarrow>
             (let loaded = List.map_filter (load_employee cfg lib) rows;
                  templates = map fst loaded;
                  vectors = map snd loaded;
                  employee_ids = map (\<lambda>t. entry_employee_id t) templates
              in if vectors = [] then (False, cleared_index)
                 else
                   (case np_stack vectors of
                      None \<Rightarrow> (False, cleared_index)
                    | Some m \<Rightarrow>
                        (True,
                         \<lparr> EMPLOYEE_VECTORS = Some m, EMPLOYEE_TEMPLATES = templates,
                           EMPLOYEE_IDS = employee_ids, EMPLOYEE_INDEX_READY = True,
                           FAISS_INDEX = (if FAISS_AVAILABLE lib then Some m else None) \<rparr>)))))"

definition ensure_employee_index_ready ::
  "config \<Rightarrow> libs \<Rightarrow> py_exc + db_row list \<Rightarrow> index_state \<Rightarrow> bool \<times> index_state" where
  "ensure_employee_index_ready cfg lib db st =
     (if \<not> EMPLOYEE_INDEX_READY st then rebuild_employee_index cfg lib db st
      else (EMPLOYEE_INDEX_READY st, st))"

text \<open>The template of the incremental add (lines 546-607); \<open>None\<close> is \<open>return False\<close>.\<close>

definition sync_template :: "config \<Rightarrow> libs \<Rightarrow> sync_row \<Rightarrow> features option" where
  "sync_template cfg lib row =
     (let huella_gzip_value = or_empty (huella_gzip row);
          huella_png_value = or_empty (huella row)
      in if huella_gzip_value \<noteq> [] \<and> 10 \<le> length huella_gzip_value
            \<and> take 4 huella_gzip_value = ''H4sI'' then
           (let t_features = load_precomputed_template cfg lib huella_gzip_value ''emp''
            in if \<not> success t_features then None else Some t_features)
         else if huella_png_value \<noteq> [] \<and> 10 \<le> length huella_png_value
                 \<and> take 5 huella_png_value = ''iVBOR'' then
           png_features cfg lib False ''emp'' huella_png_value
         else None)"

text \<open>
  \<open>add_employee_to_index\<close>. \<open>db\<close> is what connecting and \<open>fetchone\<close> give for the
  employee: the row, no row, or the exception raised.
\<close>

definition add_employee_to_index ::
  "config \<Rightarrow> libs \<Rightarrow> py_exc + sync_row option \<Rightarrow> int \<Rightarrow> index_state \<Rightarrow> bool \<times> index_state" where
  "add_employee_to_index cfg lib db emp_id st =
     (if \<not> PSYCOPG2_AVAILABLE lib then (False, st)
      else if EMPLOYEE_IDS st \<noteq> [] \<and> emp_id \<in> set (EMPLOYEE_IDS st) then (True, st)
      else
        (case db of
           Inl e \<Rightarrow> (False, st)
         | Inr None \<Rightarrow> (False, st)
         | Inr (Some row) \<Rightarrow>
             (case sync_template cfg lib row of
                None \<Rightarrow> (False, st)
              | Some t_features \<Rightarrow>
                  (case descriptors t_features of
                     None \<Rightarrow> (False, st)
                   | Some des \<Rightarrow>
                       if length des = 0 then (False, st)
                       else
                         (case descriptors_to_vector lib (Some des) of
                            None \<Rightarrow> (False, st)
                          | Some vec \<Rightarrow>
                              (case (case EMPLOYEE_VECTORS st of
                                       None \<Rightarrow> Some [vec]
                                     | Some vs \<Rightarrow> np_vstack [vs, [vec]]) of
                                 None \<Rightarrow> (False, st)
                               | Some vs' \<Rightarrow>
                                   (True,
                                    st\<lparr> EMPLOYEE_VECTORS := Some vs',
                                        EMPLOYEE_TEMPLATES := EMPLOYEE_TEMPLATES st @
                                          [\<lparr> entry_employee_id = emp_id,
                                             template_features_list = None,
                                             num_templates = None,
                                             template_features = Some t_features \<rparr>],
                                        EMPLOYEE_IDS := EMPLOYEE_IDS st @ [emp_id],
                                        FAISS_INDEX :=
                                          (if FAISS_AVAILABLE lib
                                           then map_option (\<lambda>ix. ix @ [vec]) (FAISS_INDEX st)
                                           else FAISS_INDEX st) \<rparr>)))))))"

text \<open>\<open>find_top_k_candidates\<close> (lines 652-673).\<close>

definition find_top_k_candidates ::
  "libs \<Rightarrow> index_state \<Rightarrow> fval list \<Rightarrow> int \<Rightarrow> py_exc + int list" where
  "find_top_k_candidates lib st probe_vec k =
     (case EMPLOYEE_VECTORS st of
        None \<Rightarrow> Inr []
      | Some vs \<Rightarrow>
          if length vs = 0 then Inr []
          else
            (let k' = min k (int (length vs))
             in case (FAISS_INDEX st, FAISS_AVAILABLE lib) of
                  (Some ix, True) \<Rightarrow>
                    (case top_k_search lib ix probe_vec k' of
                       Inl e \<Rightarrow> Inl e
                     | Inr idxs \<Rightarrow> Inr (filter (\<lambda>i. 0 \<le> i) idxs))
                | _ \<Rightarrow> top_k_search lib vs probe_vec k'))"

subsection \<open>Identification (lines 1958-2203)\<close>

text \<open>The decimal text of an integer, as an f-string prints it.\<close>

fun str_nat :: "nat \<Rightarrow> string" where
  "str_nat n =
     (if n < 10 then [''0123456789'' ! n]
      else str_nat (n div 10) @ [''0123456789'' ! (n mod 10)])"

declare str_nat.simps [simp del]

definition str_of_int :: "int \<Rightarrow> string" where
  "str_of_int i = (if i < 0 then CHR ''-'' # str_nat (nat (- i)) else str_nat (nat i))"

text \<open>\<open>xs[i]\<close>: a negative index counts from the end, an index out of range raises.\<close>

definition py_list_get :: "'a list \<Rightarrow> int \<Rightarrow> py_exc + 'a" where
  "py_list_get xs i =
     (if 0 \<le> i \<and> i < int (length xs) then Inr (xs ! nat i)
      else if i < 0 \<and> - int (length xs) \<le> i then Inr (xs ! nat (int (length xs) + i))
      else Inl (IndexError ''list index out of range''))"

text \<open>The inner loop of lines 2054-2070: the probe against each template of one employee, in strict mode.\<close>

fun match_employee_templates ::
  "config \<Rightarrow> libs \<Rightarrow> features \<Rightarrow> int option \<Rightarrow> nat \<Rightarrow> features list \<Rightarrow>
   py_exc + match_payload list" where
  "match_employee_templates cfg lib probe_features threshold_override template_idx [] = Inr []"
| "match_employee_templates cfg lib probe_features threshold_override template_idx
     (tmpl_features # rest) =
     (let template_dict =
            \<lparr> label = ''emp'', success = success tmpl_features,
              keypoints = keypoints tmpl_features, descriptors = descriptors tmpl_features,
              quality_flag = quality_flag tmpl_features, quality_warn = quality_warn tmpl_features,
              error = None, is_precomputed = Some True, metadata = None \<rparr>
      in andthen (match_feature_sets cfg lib probe_features template_dict threshold_override True)
           (\<lambda>result.
              andthen (match_employee_templates cfg lib probe_features threshold_override
                         (Suc template_idx) rest)
                (\<lambda>results.
                   Inr (result\<lparr> p_is_precomputed := Some True,
                                template_index := Some (int template_idx + 1) \<rparr> # results))))"

text \<open>\<open>max(template_results, key=lambda r: r.get("score", 0))\<close>: the first of the maximal elements.\<close>

definition max_by_score :: "match_payload list \<Rightarrow> py_exc + match_payload" where
  "max_by_score rs =
     (case rs of
        [] \<Rightarrow> Inl (ValueError ''max() arg is an empty sequence'')
      | r # rest \<Rightarrow> Inr (foldl (\<lambda>b x. if score b < score x then x else b) r rest))"

text \<open>
  The entry of a shortlisted employee as lines 2047-2050 read it: a key that the entry
  lacks raises KeyError.
\<close>

definition read_entry :: "template_entry \<Rightarrow> py_exc + (int \<times> features list \<times> nat)" where
  "read_entry tmpl_entry =
     (case template_features_list tmpl_entry of
        None \<Rightarrow> Inl (KeyError ''template_features_list'')
      | Some tfl \<Rightarrow>
          (case num_templates tmpl_entry of
             None \<Rightarrow> Inl (KeyError ''num_templates'')
           | Some n \<Rightarrow> Inr (entry_employee_id tmpl_entry, tfl, n)))"

text \<open>One shortlisted employee (lines 2046-2078).\<close>

definition evaluate_candidate ::
  "config \<Rightarrow> libs \<Rightarrow> index_state \<Rightarrow> features \<Rightarrow> int option \<Rightarrow> int \<Rightarrow> py_exc + match_payload" where
  "evaluate_candidate cfg lib st probe_features threshold_override idx =
     andthen (py_list_get (EMPLOYEE_TEMPLATES st) idx) (\<lambda>tmpl_entry.
     andthen (read_entry tmpl_entry) (\<lambda>(emp_id, tfl, n).
     andthen (match_employee_templates cfg lib probe_features threshold_override 0 tfl)
       (\<lambda>tmpl_results.
     andthen (max_by_score tmpl_results) (\<lambda>best_template_result.
       Inr (best_template_result
              \<lparr> employee_id := Some emp_id,
                num_templates_tested := Some n,
                all_template_scores := Some (map score tmpl_results) \<rparr>)))))"

text \<open>The loop over the shortlist: the first exception ends it.\<close>

fun evaluate_candidates ::
  "config \<Rightarrow> libs \<Rightarrow> index_state \<Rightarrow> features \<Rightarrow> int option \<Rightarrow> int list \<Rightarrow>
   py_exc + match_payload list" where
  "evaluate_candidates cfg lib st probe_features threshold_override [] = Inr []"
| "evaluate_candidates cfg lib st probe_features threshold_override (idx # rest) =
     andthen (evaluate_candidate cfg lib st probe_features threshold_override idx) (\<lambda>r.
     andthen (evaluate_candidates cfg lib st probe_features threshold_override rest) (\<lambda>rs.
       Inr (r # rs)))"

text \<open>Lines 2121-2126: the best score of any other employee.\<close>

definition second_best_score :: "match_payload list \<Rightarrow> int option \<Rightarrow> int" where
  "second_best_score candidate_results best_emp_id =
     foldl (\<lambda>sb r. if employee_id r \<noteq> best_emp_id \<and> sb < score r then score r else sb)
       0 candidate_results"

definition min_margin_for :: "nat \<Rightarrow> int" where
  "min_margin_for num_employees =
     (if num_employees \<le> 4 then 10 else if num_employees \<le> 10 then 12 else 15)"

text \<open>Layer 3 (lines 2143-2146).\<close>

definition margin_gate :: "match_payload \<Rightarrow> match_payload list \<Rightarrow> nat \<Rightarrow> match_payload" where
  "margin_gate best candidate_results num_employees =
     (let margin_of_victory = score best - second_best_score candidate_results (employee_id best);
          min_margin = min_margin_for num_employees
      in if 1 < length candidate_results \<and> margin_of_victory < min_margin
         then best\<lparr> accepted := False,
                    reason := Some (''ambiguous_match_margin_'' @ str_of_int margin_of_victory
                                    @ ''<'' @ str_of_int min_margin) \<rparr>
         else best)"

text \<open>Layer 4 (lines 2148-2153); \<open>best_sc\<close> is the score read before layer 3.\<close>

definition abs_score_gate :: "config \<Rightarrow> int \<Rightarrow> match_payload \<Rightarrow> match_payload" where
  "abs_score_gate cfg best_sc b =
     (let min_absolute_score = (if 0 < FP_ABS_MIN_SCORE cfg then FP_ABS_MIN_SCORE cfg else 45)
      in if best_sc < min_absolute_score
         then b\<lparr> accepted := False,
                 reason := Some (''score_too_low_'' @ str_of_int best_sc
                                 @ ''<'' @ str_of_int min_absolute_score) \<rparr>
         else b)"

text \<open>
  Layer 5 (lines 2155-2166): \<open>s >= best_score * 0.6\<close> compares an int with a float,
  and an infinity is above every int.
\<close>

definition consistency_gate :: "int \<Rightarrow> match_payload \<Rightarrow> py_exc + match_payload" where
  "consistency_gate best_sc b =
     (let scores = (case all_template_scores b of None \<Rightarrow> [] | Some l \<Rightarrow> l)
      in if 3 \<le> length scores then
           andthen (int_times_float best_sc (fl (6 / 10))) (\<lambda>threshold_score.
             (let good_templates =
                    length (filter (\<lambda>s. case threshold_score of
                                           None \<Rightarrow> False
                                         | Some t \<Rightarrow> t \<le> of_int s) scores)
              in if good_templates < 2
                 then Inr (b\<lparr> accepted := False,
                              reason := Some (''inconsistent_templates_'' @ str_nat good_templates
                                              @ ''/'' @ str_nat (length scores)) \<rparr>)
                 else Inr b))
         else Inr b)"

text \<open>
  The gates after the tentative acceptance (lines 2116-2167). They are three \<open>if\<close>
  statements in a row: each that fires overwrites the reason of the one before.
\<close>

definition anti_false_positive ::
  "config \<Rightarrow> match_payload \<Rightarrow> match_payload list \<Rightarrow> nat \<Rightarrow> py_exc + match_payload" where
  "anti_false_positive cfg best candidate_results num_employees =
     (if accepted best then
        consistency_gate (score best)
          (abs_score_gate cfg (score best) (margin_gate best candidate_results num_employees))
      else Inr best)"

record id_response =
  matched :: bool
  resp_employee_id :: "int option"
  id_decision_reason :: "string option"
  id_probe_keypoints :: nat
  id_best_score :: "int option"
  templates_in_index :: "nat option"
  candidates_evaluated :: "nat option"
  candidates :: "match_payload list"

definition early_response :: "string option \<Rightarrow> nat \<Rightarrow> id_response" where
  "early_response why probe_kp =
     \<lparr> matched = False, resp_employee_id = None, id_decision_reason = why,
       id_probe_keypoints = probe_kp, id_best_score = None, templates_in_index = None,
       candidates_evaluated = None, candidates = [] \<rparr>"

text \<open>
  The decision on the results of the shortlist (lines 2099-2201). The best result is
  one of the objects of \<open>candidate_results\<close>, so the gates change it there too.
\<close>

definition decide_identification ::
  "config \<Rightarrow> nat \<Rightarrow> nat \<Rightarrow> match_payload list \<Rightarrow> py_exc + id_response" where
  "decide_identification cfg probe_kp num_employees candidate_results =
     (case select_best candidate_results 0 None of
        None \<Rightarrow> Inr (early_response (Some ''no_valid_results'') probe_kp)
      | Some (bi, best) \<Rightarrow>
          andthen (anti_false_positive cfg best candidate_results num_employees) (\<lambda>final.
            Inr \<lparr> matched = accepted final,
                  resp_employee_id = (if accepted final then employee_id best else None),
                  id_decision_reason =
                    (if accepted final then Some ''match_found'' else reason final),
                  id_probe_keypoints = probe_kp,
                  id_best_score = Some (score final),
                  templates_in_index = Some num_employees,
                  candidates_evaluated = Some (length candidate_results),
                  candidates = candidate_results[bi := final] \<rparr>))"

text \<open>
  \<open>identify_employee\<close>: the response or the exception, and the globals after the
  call (the index is rebuilt when it is not ready). \<open>db\<close> is what the rebuild would
  read. The probe is prepared with \<open>FP_FORCE_BASIC\<close> set to False.
\<close>

definition identify_employee ::
  "config \<Rightarrow> libs \<Rightarrow> py_exc + db_row list \<Rightarrow> index_state \<Rightarrow> string \<Rightarrow> int option \<Rightarrow>
   int option \<Rightarrow> (py_exc + id_response) \<times> index_state" where
  "identify_employee cfg lib db st0 probe_image_b64 max_candidates threshold_override =
     (let (ready, st) = ensure_employee_index_ready cfg lib db st0
      in if \<not> ready then
           (Inl (HTTPException 500 ''Employee fingerprint index is not ready''), st)
         else if (case EMPLOYEE_VECTORS st of None \<Rightarrow> True | Some vs \<Rightarrow> length vs = 0) then
           (Inl (HTTPException 500 ''No employee templates available in index''), st)
         else
           (andthen (prepare_features cfg lib False probe_image_b64 ''probe_identify'' False)
              (\<lambda>probe_features.
                 (let probe_kp = keypoints probe_features
                  in if \<not> success probe_features then
                       Inr (early_response (get_error probe_features ''probe_processing_error'')
                              probe_kp)
                     else if int probe_kp < FP_MIN_KEYPOINTS_WARN cfg then
                       Inr (early_response (Some ''probe_low_quality'') probe_kp)
                     else
                       (case descriptors_to_vector lib (descriptors probe_features) of
                          None \<Rightarrow> Inr (early_response (Some ''probe_no_descriptors'') probe_kp)
                        | Some probe_vec \<Rightarrow>
                            (let k = (case max_candidates of
                                        None \<Rightarrow> TOP_K_DEFAULT
                                      | Some m \<Rightarrow> if m = 0 then TOP_K_DEFAULT else m)
                             in andthen (find_top_k_candidates lib st probe_vec k)
                                  (\<lambda>candidate_indices.
                                     if candidate_indices = [] then
                                       Inr (early_response (Some ''no_candidates_found'') probe_kp)
                                     else
                                       andthen (evaluate_candidates cfg lib st probe_features
                                                  threshold_override candidate_indices)
                                         (decide_identification cfg probe_kp
                                            (length (EMPLOYEE_IDS st)))))))),
            st))"

subsection \<open>A library instance for concrete evaluation\<close>

text \<open>
  Stand-ins for the libraries, used where a statement is evaluated at a concrete
  input. The codec is transparent: the JSON text of a value is a fixed byte string of
  120 bytes behind the gzip magic bytes, and only the value \<open>j\<close> given to the instance
  decodes. A descriptor of the stand-in detector has one entry that may differ from 0,
  the first, and all descriptors of an image are equal. A template's descriptor matrix
  announces its score: \<open>knn_match\<close> returns one pair per probe descriptor, of which
  as many pass the ratio test as the first entry of the template says. An image is the
  length of its text, the detector finds 200 keypoints whose descriptors start with that
  length, and the search returns the first \<open>k\<close> rows. On such matrices the mean of
  the rows is the first row, the norm of a row is its first entry, and the division
  leaves 0 where there is 0 and 1 where the entry is the norm.
\<close>

definition fixture_row :: "rat \<Rightarrow> fval list" where
  "fixture_row v = Fin v # replicate 127 (Fin 0)"

definition fixture_matrix :: "rat \<Rightarrow> descriptors" where
  "fixture_matrix v = replicate 200 (fixture_row v)"

definition fixture_bytes :: "nat list" where
  "fixture_bytes = [31, 139, 8] @ replicate 120 0"

definition fixture_entry :: "descriptors \<Rightarrow> nat" where
  "fixture_entry des = (case hd (hd des) of Fin x \<Rightarrow> nat \<lfloor>x\<rfloor> | _ \<Rightarrow> 0)"

definition fixture_knn :: "descriptors \<Rightarrow> descriptors \<Rightarrow> py_exc + fval list list" where
  "fixture_knn des_probe des_template =
     (let n = min (length des_probe) (fixture_entry des_template)
      in Inr (replicate n [Fin 1, Fin 2] @ replicate (length des_probe - n) [Fin 1, Fin 1]))"

definition fixture_libs :: "json \<Rightarrow> libs" where
  "fixture_libs j =
     \<lparr> json_dumps = (\<lambda>v. fixture_bytes),
       json_loads = (\<lambda>bs. if bs = fixture_bytes then Some j else None),
       gzip_compress = (\<lambda>bs. bs),
       gzip_decompress = (\<lambda>bs. if take 2 bs = [31, 139] then Some bs else None),
       b64encode = (\<lambda>bs. ''H4sI'' @ replicate 160 (CHR ''A'')),
       b64decode = (\<lambda>s. if s = ''H4sI'' @ replicate 160 (CHR ''A'') then Some fixture_bytes
                         else None),
       str_float = (\<lambda>s. None),
       str_int = (\<lambda>s. None),
       decode_image_from_b64 = (\<lambda>s. if s = [] then None else Some [[length s]]),
       enhance_fingerprint_professional = (\<lambda>force_basic img. Some img),
       enhance_fingerprint_improved = (\<lambda>img. Some img),
       detect_and_compute = (\<lambda>img. Inr (200, Some (fixture_matrix (of_nat (hd (hd img)))))),
       knn_match = fixture_knn,
       top_k_search = (\<lambda>m v k. Inr (map int [0..<min (nat k) (length m)])),
       np_mean_axis0 = (\<lambda>m. hd m),
       np_linalg_norm = (\<lambda>v. hd v),
       np_divide = (\<lambda>v n. map (\<lambda>x. if x = Fin 0 then Fin 0 else if x = n then Fin 1 else NaN) v),
       FINGERPRINT_ENHANCER_AVAILABLE = True,
       PSYCOPG2_AVAILABLE = True,
       FAISS_AVAILABLE = False \<rparr>"

text \<open>A feature set of 200 keypoints whose descriptors start with the entry \<open>v\<close>.\<close>

definition fixture_features :: "rat \<Rightarrow> features" where
  "fixture_features v =
     \<lparr> label = ''fixture'', success = True, keypoints = 200,
       descriptors = Some (fixture_matrix v),
       quality_flag = True, quality_warn = True, error = Some None,
       is_precomputed = Some True, metadata = None \<rparr>"

text \<open>A result accepted with confidence 100, as a worker returns it.\<close>

definition fixture_hit :: match_payload where
  "fixture_hit = (base_match_payload default_config 200 200)\<lparr>accepted := True, confidence := 100\<rparr>"

section \<open>Properties\<close>

subsection \<open>Rounding\<close>

lemma round_half_even_of_int [simp]: "round_half_even (of_int n) = n"
  by (simp add: round_half_even_def Let_def)

lemma round_half_even_le:
  assumes "y \<le> of_int m" shows "round_half_even y \<le> m"
proof -
  have "round_half_even y \<le> \<lceil>y\<rceil>"
    unfolding round_half_even_def Let_def
    by (auto simp: ceiling_altdef not_less) 
  also have "\<dots> \<le> m" using assms by (simp add: ceiling_le)
  finally show ?thesis .
qed

lemma round_half_even_ge:
  assumes "of_int m \<le> y" shows "m \<le> round_half_even y"
proof -
  have "m \<le> \<lfloor>y\<rfloor>" using assms by (simp add: le_floor_iff)
  also have "\<dots> \<le> round_half_even y"
    unfolding round_half_even_def Let_def by auto
  finally show ?thesis .
qed

lemma expo_le:
  assumes "x \<noteq> 0" shows "2 powi (expo x) \<le> \<bar>x\<bar>"
proof -
  obtain p q where pq: "quotient_of \<bar>x\<bar> = (p, q)" by (cases "quotient_of \<bar>x\<bar>")
  have q: "0 < q" using pq by (rule quotient_of_denom_pos)
  have x: "\<bar>x\<bar> = of_int p / of_int q" using pq by (rule quotient_of_div)
  have p: "0 < p"
  proof -
    have "0 < \<bar>x\<bar>" using assms by simp
    then have "0 < (of_int p / of_int q :: rat)" using x by simp
    then show ?thesis using q by (simp add: zero_less_divide_iff)
  qed
  define d where "d = bitlen p - bitlen q"
  show ?thesis
  proof (cases "2 powi d \<le> \<bar>x\<bar>")
    case True
    then show ?thesis by (simp add: expo_def pq d_def Let_def)
  next
    case False
    have e: "expo x = d - 1" using False by (simp add: expo_def pq d_def Let_def)
    have bp: "2 ^ nat (bitlen p - 1) \<le> p" and bq: "q < 2 ^ nat (bitlen q)"
      using bitlen_bounds [OF p] bitlen_bounds [OF q] by auto
    have bpp: "0 < bitlen p" "0 < bitlen q"
    proof -
      have "p < 2 ^ nat (bitlen p)" "q < 2 ^ nat (bitlen q)"
        using bitlen_bounds [OF p] bitlen_bounds [OF q] by auto
      then show "0 < bitlen p" "0 < bitlen q"
        using p q by (auto intro: ccontr simp: not_less)
    qed
    have "(2::rat) powi (d - 1) = 2 powi (bitlen p - 1) / 2 powi (bitlen q)"
      by (simp add: d_def power_int_diff)
    also have "\<dots> = 2 ^ nat (bitlen p - 1) / 2 ^ nat (bitlen q)"
      using bpp by (simp add: power_int_def)
    also have "\<dots> \<le> of_int p / 2 ^ nat (bitlen q)"
    proof -
      have "(2::rat) ^ nat (bitlen p - 1) \<le> of_int p"
        using bp by (metis of_int_le_iff of_int_numeral of_int_power)
      then show ?thesis by (simp add: divide_right_mono)
    qed
    also have "\<dots> \<le> of_int p / of_int q"
    proof -
      have "(of_int q :: rat) \<le> 2 ^ nat (bitlen q)"
        using bq by (metis less_imp_le of_int_le_iff of_int_numeral of_int_power)
      then show ?thesis using p q by (simp add: frac_le)
    qed
    finally show ?thesis by (simp add: e x)
  qed
qed

lemma expo_less_53:
  assumes "x \<noteq> 0" "\<bar>x\<bar> < 2 ^ 53" shows "expo x < 53"
proof (rule ccontr)
  assume "\<not> expo x < 53"
  then have "53 \<le> expo x" by simp
  then have "(2::rat) powi 53 \<le> 2 powi (expo x)"
    by (intro power_int_increasing) simp_all
  also have "\<dots> \<le> \<bar>x\<bar>" by (rule expo_le [OF assms(1)])
  finally show False using assms(2) by simp
qed

lemma fl_zero [simp]: "fl 0 = 0"
  using round_half_even_of_int [of 0] by (simp add: fl_def Let_def)

lemma fl_grid:
  assumes "x \<noteq> 0" "\<bar>x\<bar> < 2 ^ 53"
  obtains k where "fl x = of_int (round_half_even (x * 2 ^ k)) / 2 ^ k"
proof -
  define e where "e = max (expo x) (- 1022)"
  have e: "e < 53" using expo_less_53 [OF assms] by (simp add: e_def)
  define k where "k = nat (52 - e)"
  have q: "(2::rat) powi (e - 52) = 1 / 2 ^ k"
  proof -
    have "e - 52 = - int k" using e by (simp add: k_def)
    then have "(2::rat) powi (e - 52) = 2 powi (- int k)" by simp
    also have "\<dots> = inverse (2 ^ k)" by (simp only: power_int_minus power_int_of_nat)
    finally show ?thesis by (simp add: field_simps)
  qed
  have "fl x = of_int (round_half_even (x * 2 ^ k)) / 2 ^ k"
    unfolding fl_def Let_def e_def [symmetric] q by simp
  then show ?thesis ..
qed

lemma fl_le_int:
  assumes "0 \<le> x" "x \<le> of_int n" "n < 2 ^ 53"
  shows "fl x \<le> of_int n"
proof (cases "x = 0")
  case True
  then show ?thesis using assms by simp
next
  case False
  have "(of_int n :: rat) < 2 ^ 53"
    using assms(3) by (metis of_int_less_iff of_int_numeral of_int_power)
  then have "\<bar>x\<bar> < 2 ^ 53" using assms by simp
  from fl_grid [OF False this] obtain k
    where k: "fl x = of_int (round_half_even (x * 2 ^ k)) / 2 ^ k" .
  have "x * 2 ^ k \<le> of_int (n * 2 ^ k)" using assms(2) by simp
  then have "round_half_even (x * 2 ^ k) \<le> n * 2 ^ k" by (rule round_half_even_le)
  then have "(of_int (round_half_even (x * 2 ^ k)) :: rat) \<le> of_int (n * 2 ^ k)"
    by (simp only: of_int_le_iff)
  then show ?thesis unfolding k by (simp add: field_simps)
qed

lemma fl_nonneg:
  assumes "0 \<le> x" "x < 2 ^ 53" shows "0 \<le> fl x"
proof (cases "x = 0")
  case True
  then show ?thesis by simp
next
  case False
  have "\<bar>x\<bar> < 2 ^ 53" using assms by simp
  from fl_grid [OF False this] obtain k
    where k: "fl x = of_int (round_half_even (x * 2 ^ k)) / 2 ^ k" .
  have "of_int 0 \<le> x * 2 ^ k" using assms(1) by simp
  then have "0 \<le> round_half_even (x * 2 ^ k)" by (rule round_half_even_ge)
  then show ?thesis unfolding k by simp
qed

lemma fl_of_int:
  assumes "\<bar>n\<bar> < 2 ^ 53" shows "fl (of_int n) = of_int n"
proof (cases "n = 0")
  case True
  then show ?thesis by simp
next
  case False
  have "\<bar>of_int n :: rat\<bar> < 2 ^ 53"
    using assms by (metis of_int_abs of_int_less_iff of_int_numeral of_int_power)
  from fl_grid [OF _ this] False obtain k
    where k: "fl (of_int n) = of_int (round_half_even (of_int n * 2 ^ k)) / 2 ^ k" by auto
  have "(of_int n :: rat) * 2 ^ k = of_int (n * 2 ^ k)" by simp
  then show ?thesis unfolding k by (simp only: round_half_even_of_int) simp
qed

lemma andthen_Inr [simp]: "andthen (Inr v) f = f v"
  by (simp add: andthen_def)

lemma andthen_Inl [simp]: "andthen (Inl e) f = Inl e"
  by (simp add: andthen_def)

lemma andthen_eq_Inr:
  "andthen r f = Inr y \<longleftrightarrow> (\<exists>v. r = Inr v \<and> f v = Inr y)"
  by (cases r) simp_all

lemma to_float_bounded:
  assumes "0 \<le> x" "x \<le> of_int n" "n < 2 ^ 53"
  shows "to_float x = Some (fl x)" "0 \<le> fl x" "fl x \<le> of_int n"
proof -
  have n: "(of_int n :: rat) < 2 ^ 53"
    using assms(3) by (metis of_int_less_iff of_int_numeral of_int_power)
  show a: "0 \<le> fl x" using assms n by (intro fl_nonneg) simp_all
  show b: "fl x \<le> of_int n" using assms by (rule fl_le_int)
  have "fl x < 2 ^ 53" using b n by simp
  also have "(2::rat) ^ 53 < 2 ^ 1024" by simp
  finally show "to_float x = Some (fl x)" using a by (simp add: to_float_def Let_def)
qed

lemma int_to_float_bounded:
  assumes "0 \<le> n" "n < 2 ^ 53" shows "int_to_float n = Inr (of_int n)"
proof -
  have "to_float (of_int n) = Some (fl (of_int n))"
    using assms by (intro to_float_bounded(1) [where n = n]) simp_all
  moreover have "fl (of_int n) = of_int n" using assms by (intro fl_of_int) simp
  ultimately show ?thesis by (simp add: int_to_float_def)
qed

text \<open>The product of a bounded non-negative int and a float between 0 and 1.\<close>

lemma int_times_float_bounded:
  assumes "0 \<le> n" "n < 2 ^ 53" "0 \<le> c" "of_int n * c \<le> of_int m" "m < 2 ^ 53"
  shows "\<exists>y. int_times_float n c = Inr (Some y) \<and> 0 \<le> y \<and> y \<le> of_int m"
proof -
  have x: "0 \<le> of_int n * c" using assms by simp
  from to_float_bounded [OF x assms(4,5)] int_to_float_bounded [OF assms(1,2)]
  show ?thesis by (simp add: int_times_float_def)
qed

lemma expo_less:
  assumes "x \<noteq> 0" shows "\<bar>x\<bar> < 2 powi (expo x + 1)"
proof -
  obtain p q where pq: "quotient_of \<bar>x\<bar> = (p, q)" by (cases "quotient_of \<bar>x\<bar>")
  have q: "0 < q" using pq by (rule quotient_of_denom_pos)
  have x: "\<bar>x\<bar> = of_int p / of_int q" using pq by (rule quotient_of_div)
  have p: "0 < p"
  proof -
    have "0 < \<bar>x\<bar>" using assms by simp
    then have "0 < (of_int p / of_int q :: rat)" using x by simp
    then show ?thesis using q by (simp add: zero_less_divide_iff)
  qed
  define d where "d = bitlen p - bitlen q"
  show ?thesis
  proof (cases "2 powi d \<le> \<bar>x\<bar>")
    case False
    then show ?thesis by (simp add: expo_def pq d_def Let_def)
  next
    case True
    have e: "expo x = d" using True by (simp add: expo_def pq d_def Let_def)
    have bp: "p < 2 ^ nat (bitlen p)" and bq: "2 ^ nat (bitlen q - 1) \<le> q"
      using bitlen_bounds [OF p] bitlen_bounds [OF q] by auto
    have bpp: "0 < bitlen p" "0 < bitlen q"
    proof -
      have "p < 2 ^ nat (bitlen p)" "q < 2 ^ nat (bitlen q)"
        using bitlen_bounds [OF p] bitlen_bounds [OF q] by auto
      then show "0 < bitlen p" "0 < bitlen q"
        using p q by (auto intro: ccontr simp: not_less)
    qed
    have "of_int p / of_int q \<le> (of_int p :: rat) / 2 ^ nat (bitlen q - 1)"
    proof -
      have "(2::rat) ^ nat (bitlen q - 1) \<le> of_int q"
        using bq by (metis of_int_le_iff of_int_numeral of_int_power)
      then show ?thesis using p by (simp add: frac_le)
    qed
    also have "\<dots> < 2 ^ nat (bitlen p) / 2 ^ nat (bitlen q - 1)"
    proof -
      have "(of_int p :: rat) < 2 ^ nat (bitlen p)"
        using bp by (metis of_int_less_iff of_int_numeral of_int_power)
      then show ?thesis by (simp add: divide_strict_right_mono)
    qed
    also have "\<dots> = (2::rat) powi (bitlen p) / 2 powi (bitlen q - 1)"
      using bpp by (simp add: power_int_def)
    also have "\<dots> = 2 powi (d + 1)"
      by (simp add: d_def power_int_diff power_int_add)
    finally show ?thesis by (simp add: e x)
  qed
qed

lemma powi_less_imp_less:
  assumes "(2::rat) powi a < 2 powi b" shows "a < b"
proof (rule ccontr)
  assume "\<not> a < b"
  then have "b \<le> a" by simp
  then have "(2::rat) powi b \<le> 2 powi a" by (intro power_int_increasing) simp_all
  with assms show False by simp
qed

lemma expo_unique:
  assumes "2 powi e \<le> \<bar>x\<bar>" "\<bar>x\<bar> < 2 powi (e + 1)" shows "expo x = e"
proof -
  have x: "x \<noteq> 0"
  proof
    assume "x = 0"
    with assms(1) have "(2::rat) powi e \<le> 0" by simp
    moreover have "(0::rat) < 2 powi e" by (rule zero_less_power_int) simp
    ultimately show False by linarith
  qed
  have "(2::rat) powi e < 2 powi (expo x + 1)"
    using assms(1) expo_less [OF x] by simp
  then have a: "e < expo x + 1" by (rule powi_less_imp_less)
  have "(2::rat) powi (expo x) < 2 powi (e + 1)"
    using assms(2) expo_le [OF x] by simp
  then have "expo x < e + 1" by (rule powi_less_imp_less)
  with a show ?thesis by simp
qed

text \<open>The rounding of a number whose binary exponent is known.\<close>

lemma fl_eval:
  assumes "2 powi e \<le> \<bar>x\<bar>" "\<bar>x\<bar> < 2 powi (e + 1)" "- 1022 \<le> e"
  shows "fl x = of_int (round_half_even (x / 2 powi (e - 52))) * 2 powi (e - 52)"
  using assms(3) by (simp add: fl_def expo_unique [OF assms(1,2)] Let_def max_def)

lemma round_half_even_near:
  assumes "\<bar>y - of_int m\<bar> < 1 / 2" shows "round_half_even y = m"
proof -
  define f where "f = \<lfloor>y\<rfloor>"
  have f: "of_int f \<le> y" "y < of_int f + 1" by (simp_all add: f_def) linarith
  have m: "of_int m < y + 1 / 2" "y - 1 / 2 < of_int m" using assms by linarith+
  consider "y - of_int f < 1 / 2" | "1 / 2 < y - of_int f" | "y - of_int f = 1 / 2" by linarith
  then show ?thesis
  proof cases
    case 1
    have "(of_int m :: rat) < of_int (f + 1)" "(of_int (f - 1) :: rat) < of_int m"
      using 1 f m by simp_all
    then have "m = f" by (simp only: of_int_less_iff)
    with 1 show ?thesis by (simp add: round_half_even_def Let_def f_def)
  next
    case 2
    have "(of_int m :: rat) < of_int (f + 2)" "(of_int f :: rat) < of_int m"
      using 2 f m by simp_all
    then have "m = f + 1" by (simp only: of_int_less_iff)
    with 2 show ?thesis by (simp add: round_half_even_def Let_def f_def)
  next
    case 3
    have "(of_int m :: rat) < of_int (f + 1)" "(of_int f :: rat) < of_int m"
      using 3 m by simp_all
    then have "m < f + 1" "f < m" by (simp_all only: of_int_less_iff)
    then show ?thesis by simp
  qed
qed

text \<open>The rounding of a number, from its binary exponent and the nearest significand.\<close>

lemma fl_near:
  assumes "2 powi e \<le> \<bar>x\<bar>" "\<bar>x\<bar> < 2 powi (e + 1)" "- 1022 \<le> e"
    "\<bar>x / 2 powi (e - 52) - of_int m\<bar> < 1 / 2"
  shows "fl x = of_int m * 2 powi (e - 52)"
  by (simp only: fl_eval [OF assms(1-3)] round_half_even_near [OF assms(4)])

lemma round_half_even_tie:
  "round_half_even (of_int f + 1 / 2) = (if even f then f else f + 1)"
proof -
  have "\<lfloor>(of_int f :: rat) + 1 / 2\<rfloor> = f" by (rule floor_unique) simp_all
  then show ?thesis by (simp add: round_half_even_def Let_def)
qed

lemma py_trunc_eq:
  assumes "of_int m \<le> y" "y < of_int m + 1" "0 \<le> y" shows "py_trunc y = m"
  using assms by (simp add: py_trunc_def floor_unique)

lemma to_float_near:
  assumes "2 powi e \<le> \<bar>x\<bar>" "\<bar>x\<bar> < 2 powi (e + 1)" "- 1022 \<le> e"
    "\<bar>x / 2 powi (e - 52) - of_int m\<bar> < 1 / 2"
    "\<bar>of_int m * 2 powi (e - 52) :: rat\<bar> < 2 ^ 1024"
  shows "to_float x = Some (of_int m * 2 powi (e - 52))"
  using assms(5) by (simp add: to_float_def fl_near [OF assms(1-4)] Let_def)

lemma fl_ge_int:
  assumes "of_int n \<le> x" "0 \<le> n" "x < 2 ^ 53"
  shows "of_int n \<le> fl x"
proof (cases "x = 0")
  case True
  then show ?thesis using assms by simp
next
  case False
  have "0 \<le> x" using assms(1,2) by (meson of_int_0_le_iff order_trans)
  then have "\<bar>x\<bar> < 2 ^ 53" using assms by simp
  from fl_grid [OF False this] obtain k
    where k: "fl x = of_int (round_half_even (x * 2 ^ k)) / 2 ^ k" .
  have "of_int (n * 2 ^ k) \<le> x * 2 ^ k" using assms(1) by simp
  then have "n * 2 ^ k \<le> round_half_even (x * 2 ^ k)" by (rule round_half_even_ge)
  then have "(of_int (n * 2 ^ k) :: rat) \<le> of_int (round_half_even (x * 2 ^ k))"
    by (simp only: of_int_le_iff)
  then show ?thesis unfolding k by (simp add: field_simps)
qed

text \<open>A score that reaches the threshold has the full confidence.\<close>

lemma confidence_of_full:
  assumes "0 < thr" "thr \<le> sc" "sc < 2 ^ 40"
  shows "confidence_of sc thr = Inr 100"
proof -
  define x where "x = (of_int sc :: rat) / of_int thr"
  have t: "(1::rat) \<le> of_int thr" using assms(1) by simp
  have s: "(of_int sc :: rat) < 2 ^ 40"
    using assms(3) by (metis of_int_less_iff of_int_numeral of_int_power)
  have x1: "1 \<le> x" using assms by (simp add: x_def)
  have x2: "x \<le> of_int sc"
  proof -
    have "0 \<le> (of_int sc :: rat)" using assms by simp
    then have "(of_int sc :: rat) / of_int thr \<le> of_int sc / 1"
      using t by (intro divide_left_mono) simp_all
    then show ?thesis by (simp add: x_def)
  qed
  have sc: "sc < 2 ^ 53" using assms(3) by (rule less_trans) simp
  have f: "to_float x = Some (fl x)" "fl x \<le> of_int sc"
    using to_float_bounded [OF _ x2 sc] x1 by simp_all
  have g: "1 \<le> fl x" using fl_ge_int [of 1 x] x1 x2 s by simp
  have h: "100 \<le> fl (fl x * 100)"
  proof -
    have "fl x * 100 < 2 ^ 53"
    proof -
      have "fl x * 100 \<le> of_int sc * 100" using f(2) by simp
      also have "\<dots> < 2 ^ 40 * (100 :: rat)" using s by simp
      also have "\<dots> < 2 ^ 53" by simp
      finally show ?thesis .
    qed
    moreover have "of_int 100 \<le> fl x * 100" using g by simp
    ultimately show ?thesis using fl_ge_int [of 100 "fl x * 100"] by simp
  qed
  have "(case to_float (fl x * 100) of None \<Rightarrow> 100 | Some c \<Rightarrow> min 100 c) = (100::rat)"
    using h by (auto simp: to_float_def Let_def split: option.splits)
  then show ?thesis
    using assms(1) f(1) by (simp add: confidence_of_def int_true_div_def x_def [symmetric])
qed

subsection \<open>The floats of the default configuration and of the literals\<close>

lemma fl_c70: "fl (70 / 100) = 3152519739159347 / 4503599627370496"
  by (subst fl_near [where e = "-1" and m = 6305039478318694]) (simp_all add: power_int_minus)

lemma fl_c70_normal [simp]: "fl (7 / 10) = 3152519739159347 / 4503599627370496"
  using fl_c70 by simp

lemma fl_c055: "fl (55 / 1000) = 7926335344172073 / 144115188075855872"
  by (subst fl_near [where e = "-5" and m = 7926335344172073]) (simp_all add: power_int_minus)

lemma fl_c055_normal [simp]: "fl (11 / 200) = 7926335344172073 / 144115188075855872"
  using fl_c055 by simp

lemma fl_c10: "fl (10 / 100) = 3602879701896397 / 36028797018963968"
  by (subst fl_near [where e = "-4" and m = 7205759403792794]) (simp_all add: power_int_minus)

lemma fl_c10_normal [simp]: "fl (1 / 10) = 3602879701896397 / 36028797018963968"
  using fl_c10 by simp

lemma fl_c85: "fl (85 / 100) = 7656119366529843 / 9007199254740992"
  by (subst fl_near [where e = "-1" and m = 7656119366529843]) (simp_all add: power_int_minus)

lemma fl_c85_normal [simp]: "fl (17 / 20) = 7656119366529843 / 9007199254740992"
  using fl_c85 by simp

lemma fl_c80: "fl (80 / 100) = 3602879701896397 / 4503599627370496"
  by (subst fl_near [where e = "-1" and m = 7205759403792794]) (simp_all add: power_int_minus)

lemma fl_c80_normal [simp]: "fl (4 / 5) = 3602879701896397 / 4503599627370496"
  using fl_c80 by simp

lemma fl_c60: "fl (6 / 10) = 5404319552844595 / 9007199254740992"
  by (subst fl_near [where e = "-1" and m = 5404319552844595]) (simp_all add: power_int_minus)

lemma fl_c60_normal [simp]: "fl (3 / 5) = 5404319552844595 / 9007199254740992"
  using fl_c60 by simp

lemma default_config_sel [simp]:
  "FP_RATIO default_config = 3152519739159347 / 4503599627370496" "FP_MIN_BASE default_config = 45"
  "FP_MIN_PERCENT default_config = 7926335344172073 / 144115188075855872" "FP_CONF_MIN default_config = 65"
  "FP_CONF_HIGH default_config = 85" "FP_MIN_KEYPOINTS default_config = 200"
  "FP_MIN_KEYPOINTS_WARN default_config = 160" "FP_HIGH_CONF_KP default_config = 525"
  "FP_MARGIN_BASE default_config = 3" "FP_MARGIN_PERCENT default_config = 3602879701896397 / 36028797018963968"
  "FP_ABS_MIN_SCORE default_config = 45" "FP_SINGLE_TEMPLATE_MARGIN_MIN default_config = 5"
  "FP_SINGLE_TEMPLATE_MARGIN_RATIO default_config = 3602879701896397 / 36028797018963968"
  "\<not> FP_FORCE_BASIC default_config" "FP_TEMPLATE_USE_PROFESSIONAL default_config"
  "\<not> FP_TEMPLATE_USE_FAST default_config"
  by (simp_all add: default_config_def)

text \<open>The products that the evaluations below meet.\<close>

lemma to_float_200_c055 [simp]: "to_float (198158383604301825 / 18014398509481984) = Some (11)"
  by (subst to_float_near [where e = "3" and m = 6192449487634432]) (simp_all add: power_int_minus)

lemma py_trunc_200_c055 [simp]: "py_trunc (11) = 11"
  by (rule py_trunc_eq) simp_all

lemma to_float_45_c10 [simp]: "to_float (162129586585337865 / 36028797018963968) = Some (9 / 2)"
  by (subst to_float_near [where e = "2" and m = 5066549580791808]) (simp_all add: power_int_minus)

lemma round_45_c10 [simp]: "round_half_even (9 / 2) = 4"
  using round_half_even_tie [of 4] by simp

lemma to_float_1_c10 [simp]: "to_float (3602879701896397 / 36028797018963968) = Some (3602879701896397 / 36028797018963968)"
  by (subst to_float_near [where e = "-4" and m = 7205759403792794]) (simp_all add: power_int_minus)

lemma round_1_c10 [simp]: "round_half_even (3602879701896397 / 36028797018963968) = 0"
  by (rule round_half_even_near) simp

lemma to_float_30_c10 [simp]: "to_float (54043195528445955 / 18014398509481984) = Some (3)"
  by (subst to_float_near [where e = "1" and m = 6755399441055744]) (simp_all add: power_int_minus)

lemma round_30_c10 [simp]: "round_half_even (3) = 3"
  by (rule round_half_even_near) simp

lemma to_float_40_c85 [simp]: "to_float (38280596832649215 / 1125899906842624) = Some (34)"
  by (subst to_float_near [where e = "5" and m = 4785074604081152]) (simp_all add: power_int_minus)

lemma py_trunc_40_c85 [simp]: "py_trunc (34) = 34"
  by (rule py_trunc_eq) simp_all

subsection \<open>The matcher\<close>

lemma scored_payload_fields [simp]:
  "threshold_used (scored_payload p sc t rq c cr ip) = t"
  "required_score (scored_payload p sc t rq c cr ip) = rq"
  "score (scored_payload p sc t rq c cr ip) = sc"
  "p_is_precomputed (scored_payload p sc t rq c cr ip) = Some ip"
  "confidence (scored_payload p sc t rq c cr ip) = py_round2 c"
  "accepted (scored_payload p sc t rq c cr ip) = accepted p"
  "probe_quality_ok (scored_payload p sc t rq c cr ip) = probe_quality_ok p"
  "all_template_scores (scored_payload p sc t rq c cr ip) = all_template_scores p"
  "employee_id (scored_payload p sc t rq c cr ip) = employee_id p"
  by (simp_all add: scored_payload_def)

lemma acceptance_policy_fields:
  assumes "acceptance_policy cfg p sc t rq c cr ip sm = Inr r"
  shows "threshold_used r = threshold_used p" "required_score r = required_score p"
    "score r = score p" "p_is_precomputed r = p_is_precomputed p"
    "confidence r = confidence p" "all_template_scores r = all_template_scores p"
    "employee_id r = employee_id p"
  using assms
  by (auto simp: acceptance_policy_def andthen_eq_Inr split: if_splits option.splits)

text \<open>The policy as a function of the gates.\<close>

lemma acceptance_policy_accepted:
  assumes "\<not> accepted p" "acceptance_policy cfg p sc t rq c cr ip sm = Inr r"
  shows "accepted r \<longleftrightarrow>
           probe_quality_ok p \<and> score_gates cfg sc t rq ip sm = Inr None \<and> cr \<le> c"
proof (cases "score_gates cfg sc t rq ip sm")
  case (Inl e)
  with assms show ?thesis by (auto simp: acceptance_policy_def split: if_splits)
next
  case (Inr g)
  with assms show ?thesis
    by (cases g) (auto simp: acceptance_policy_def split: if_splits)
qed

lemma acceptance_policy_accepts:
  assumes "probe_quality_ok p" "score_gates cfg sc t rq ip sm = Inr None" "cr \<le> c"
  shows "acceptance_policy cfg p sc t rq c cr ip sm = Inr (p\<lparr>accepted := True, reason := Some ''match''\<rparr>)"
  using assms by (simp add: acceptance_policy_def)

lemma score_gates_strict:
  "score_gates cfg sc t rq ip True = Inr None \<longleftrightarrow>
     FP_ABS_MIN_SCORE cfg \<le> sc \<and> t \<le> sc \<and> rq \<le> sc"
  by (simp add: score_gates_def)

lemma fl_85: "0 \<le> fl (85 / 100) \<and> fl (85 / 100) \<le> 86 / 100"
  by code_simp

text \<open>The floor of a precomputed template in non-strict mode leaves three points below the minimum.\<close>

lemma precomputed_floor:
  assumes "41 \<le> FP_ABS_MIN_SCORE cfg" "FP_ABS_MIN_SCORE cfg < 2 ^ 53"
  shows "\<exists>v. andthen (andthen (int_times_float (FP_ABS_MIN_SCORE cfg) (fl (85 / 100))) float_to_int)
                 (\<lambda>v. Inr (max 38 v)) = Inr (max 38 v)
             \<and> max 38 v + 3 \<le> FP_ABS_MIN_SCORE cfg"
proof -
  define a where "a = FP_ABS_MIN_SCORE cfg"
  have a: "41 \<le> a" "a < 2 ^ 53" using assms by (simp_all add: a_def)
  have "of_int a * fl (85 / 100) \<le> (of_int a :: rat) * (86 / 100)"
    using fl_85 a by (intro mult_left_mono) simp_all
  also have "\<dots> \<le> of_int (a - 3)"
  proof -
    have "(41::rat) \<le> of_int a" using a(1) by simp
    then show ?thesis by simp
  qed
  finally have le: "of_int a * fl (85 / 100) \<le> of_int (a - 3)" .
  from int_times_float_bounded [OF _ a(2) _ le] a fl_85
  obtain y where y: "int_times_float a (fl (85 / 100)) = Inr (Some y)" "0 \<le> y" "y \<le> of_int (a - 3)"
    by auto
  have "py_trunc y \<le> a - 3"
    using y(2,3) by (simp add: py_trunc_def floor_le_iff)
  then show ?thesis
    using y(1) a(1) by (auto simp: a_def [symmetric] float_to_int_def)
qed

lemma score_gates_mono:
  assumes "41 \<le> FP_ABS_MIN_SCORE cfg" "FP_ABS_MIN_SCORE cfg < 2 ^ 53"
    and "score_gates cfg sc t rq ip True = Inr None"
  shows "score_gates cfg sc t rq ip False = Inr None"
proof (cases ip)
  case False
  with assms(3) show ?thesis by (simp add: score_gates_def split: if_splits)
next
  case True
  from precomputed_floor [OF assms(1,2)] obtain v where
    v: "andthen (andthen (int_times_float (FP_ABS_MIN_SCORE cfg) (fl (85 / 100))) float_to_int)
          (\<lambda>v. Inr (max 38 v)) = Inr (max 38 v)"
    and b: "max 38 v + 3 \<le> FP_ABS_MIN_SCORE cfg" by blast
  from assms(3) have s: "FP_ABS_MIN_SCORE cfg \<le> sc" "t \<le> sc" "rq \<le> sc"
    by (simp_all add: score_gates_strict)
  from True have ip: "ip = True" by simp
  show ?thesis
    unfolding score_gates_def ip if_True if_False v using s b by (simp add: Let_def)
qed

text \<open>The matcher on a pair that reaches the scoring.\<close>

lemma match_feature_sets_scored:
  assumes "success p" "success t" "descriptors p = Some dp" "descriptors t = Some dt"
    "10 \<le> length dp" "10 \<le> length dt" "knn_match lib dp dt = Inr ms"
  shows "match_feature_sets cfg lib p t ov sm =
     (let sc = int (ratio_test cfg ms);
          mk = min (keypoints p) (keypoints t)
      in andthen (compute_threshold cfg mk ov) (\<lambda>thr.
         andthen (compute_margin cfg thr) (\<lambda>margin.
         andthen (confidence_of sc thr) (\<lambda>conf.
           (let rq = thr + margin;
                cr = (if FP_HIGH_CONF_KP cfg \<le> int mk then FP_CONF_HIGH cfg else FP_CONF_MIN cfg);
                ip = (case is_precomputed t of None \<Rightarrow> False | Some b \<Rightarrow> b)
            in acceptance_policy cfg
                 (scored_payload (base_match_payload cfg (keypoints p) (keypoints t))
                    sc thr rq conf cr ip)
                 sc thr rq conf cr ip sm)))))"
  using assms
  by (simp add: match_feature_sets_def Let_def base_match_payload_def)

text \<open>What a result of the matcher on such a pair is made of.\<close>

lemma match_feature_sets_scored_result:
  assumes "success p" "success t" "descriptors p = Some dp" "descriptors t = Some dt"
    "10 \<le> length dp" "10 \<le> length dt"
    and "match_feature_sets cfg lib p t ov sm = Inr r"
  obtains ms thr margin conf where
    "knn_match lib dp dt = Inr ms"
    "compute_threshold cfg (min (keypoints p) (keypoints t)) ov = Inr thr"
    "compute_margin cfg thr = Inr margin"
    "confidence_of (int (ratio_test cfg ms)) thr = Inr conf"
    "acceptance_policy cfg
       (scored_payload (base_match_payload cfg (keypoints p) (keypoints t))
          (int (ratio_test cfg ms)) thr (thr + margin) conf
          (if FP_HIGH_CONF_KP cfg \<le> int (min (keypoints p) (keypoints t))
           then FP_CONF_HIGH cfg else FP_CONF_MIN cfg)
          (case is_precomputed t of None \<Rightarrow> False | Some b \<Rightarrow> b))
       (int (ratio_test cfg ms)) thr (thr + margin) conf
       (if FP_HIGH_CONF_KP cfg \<le> int (min (keypoints p) (keypoints t))
        then FP_CONF_HIGH cfg else FP_CONF_MIN cfg)
       (case is_precomputed t of None \<Rightarrow> False | Some b \<Rightarrow> b) sm = Inr r"
proof (cases "knn_match lib dp dt")
  case (Inl e)
  with assms show ?thesis by (simp add: match_feature_sets_def Let_def)
next
  case (Inr ms)
  from assms(7) show ?thesis
    unfolding match_feature_sets_scored [OF assms(1-6) Inr] Let_def andthen_eq_Inr
    using Inr that by blast
qed

text \<open>The matcher on a pair that does not reach the scoring rejects.\<close>

lemma match_feature_sets_unscored:
  assumes "\<not> (success p \<and> success t \<and> (\<exists>dp dt. descriptors p = Some dp \<and> descriptors t = Some dt
               \<and> 10 \<le> length dp \<and> 10 \<le> length dt))"
    and "match_feature_sets cfg lib p t ov sm = Inr r"
  shows "\<not> accepted r"
  using assms
  by (auto simp: match_feature_sets_def Let_def base_match_payload_def
           split: if_splits option.splits)

lemma to_float_Some: "to_float x = Some y \<Longrightarrow> y = fl x"
  by (simp add: to_float_def Let_def split: if_splits)

lemma int_times_float_value:
  assumes "int_times_float i f = Inr (Some y)" shows "y = fl (fl (of_int i) * f)"
  using assms
  by (auto simp: int_times_float_def int_to_float_def andthen_eq_Inr
           dest!: to_float_Some split: option.splits)

lemma compute_threshold_value:
  assumes "compute_threshold cfg mk ov = Inr thr"
  shows "thr = (case ov of
                  Some v \<Rightarrow> max 1 v
                | None \<Rightarrow> max (max (FP_MIN_BASE cfg)
                                 (py_trunc (fl (fl (of_nat mk) * FP_MIN_PERCENT cfg)))) 1)"
proof (cases ov)
  case (Some v)
  with assms show ?thesis by (simp add: compute_threshold_def)
next
  case None
  with assms obtain product v where
    p: "int_times_float (int mk) (FP_MIN_PERCENT cfg) = Inr product"
    and v: "float_to_int product = Inr v"
    and t: "thr = max (max (FP_MIN_BASE cfg) v) 1"
    by (auto simp: compute_threshold_def andthen_eq_Inr Let_def)
  from v obtain y where y: "product = Some y" "v = py_trunc y"
    by (auto simp: float_to_int_def split: option.splits)
  from int_times_float_value [OF p [unfolded y(1)]] t y(2) None
  show ?thesis by simp
qed

lemma compute_margin_value:
  assumes "compute_margin cfg thr = Inr margin"
  shows "margin = max (FP_MARGIN_BASE cfg)
                    (round_half_even (fl (fl (of_int thr) * FP_MARGIN_PERCENT cfg)))"
proof -
  from assms obtain product v where
    p: "int_times_float thr (FP_MARGIN_PERCENT cfg) = Inr product"
    and v: "float_round product = Inr v"
    and t: "margin = max (FP_MARGIN_BASE cfg) v"
    by (auto simp: compute_margin_def andthen_eq_Inr)
  from v obtain y where y: "product = Some y" "v = round_half_even y"
    by (auto simp: float_round_def split: option.splits)
  from int_times_float_value [OF p [unfolded y(1)]] t y(2)
  show ?thesis by simp
qed

subsection \<open>The stand-in libraries\<close>

lemma fixture_libs_sel [simp]:
  "knn_match (fixture_libs j) = fixture_knn"
  "PSYCOPG2_AVAILABLE (fixture_libs j)"
  "\<not> FAISS_AVAILABLE (fixture_libs j)"
  "FINGERPRINT_ENHANCER_AVAILABLE (fixture_libs j)"
  by (simp_all add: fixture_libs_def)

lemma fixture_features_sel [simp]:
  "success (fixture_features v)" "keypoints (fixture_features v) = 200"
  "descriptors (fixture_features v) = Some (fixture_matrix v)"
  "is_precomputed (fixture_features v) = Some True"
  "quality_flag (fixture_features v)" "quality_warn (fixture_features v)"
  by (simp_all add: fixture_features_def)

lemma fixture_matrix_sel [simp]:
  "length (fixture_matrix v) = 200" "hd (hd (fixture_matrix v)) = Fin v"
  "fixture_matrix v \<noteq> []"
  by (simp_all add: fixture_matrix_def fixture_row_def)

lemma ratio_pairs:
  "fval_less (Fin 1) (fval_scale (fl (70 / 100)) (Fin 2))"
  "\<not> fval_less (Fin 1) (fval_scale (fl (70 / 100)) (Fin 1))"
proof -
  have a: "fl (3152519739159347 / 2251799813685248) = 3152519739159347 / 2251799813685248"
    by (subst fl_near [where e = 0 and m = 6305039478318694]) (simp_all add: power_int_minus)
  have b: "fl (3152519739159347 / 4503599627370496) = 3152519739159347 / 4503599627370496"
    by (subst fl_near [where e = "- 1" and m = 6305039478318694]) (simp_all add: power_int_minus)
  show "fval_less (Fin 1) (fval_scale (fl (70 / 100)) (Fin 2))"
    by (simp add: fval_scale_def to_double_def to_float_def a fval_less_def)
  show "\<not> fval_less (Fin 1) (fval_scale (fl (70 / 100)) (Fin 1))"
    by (simp add: fval_scale_def to_double_def to_float_def b fval_less_def)
qed

lemma ratio_test_fixture:
  assumes "FP_RATIO cfg = fl (70 / 100)"
  shows "ratio_test cfg (replicate n [Fin 1, Fin 2] @ replicate m [Fin 1, Fin 1]) = n"
  using ratio_pairs by (simp add: ratio_test_def assms del: fl_c70_normal)

lemma fixture_knn_eval:
  "n \<le> 200 \<Longrightarrow>
   fixture_knn (fixture_matrix a) (fixture_matrix (of_nat n))
     = Inr (replicate n [Fin 1, Fin 2] @ replicate (200 - n) [Fin 1, Fin 1])"
  by (simp add: fixture_knn_def fixture_entry_def Let_def)

text \<open>
  The matcher under the stand-in libraries, on two feature sets of 200 keypoints: the
  score is the one the template announces.
\<close>

lemma fixture_match:
  assumes "FP_RATIO cfg = fl (70 / 100)" "n \<le> 200"
    "success p" "success t" "keypoints p = 200" "keypoints t = 200"
    "descriptors p = Some (fixture_matrix a)"
    "descriptors t = Some (fixture_matrix (of_nat n))"
    "compute_threshold cfg 200 ov = Inr thr" "compute_margin cfg thr = Inr margin"
    "confidence_of (int n) thr = Inr conf"
  shows "match_feature_sets cfg (fixture_libs j) p t ov sm =
     acceptance_policy cfg
       (scored_payload (base_match_payload cfg 200 200) (int n) thr (thr + margin) conf
          (if FP_HIGH_CONF_KP cfg \<le> 200 then FP_CONF_HIGH cfg else FP_CONF_MIN cfg)
          (case is_precomputed t of None \<Rightarrow> False | Some b \<Rightarrow> b))
       (int n) thr (thr + margin) conf
       (if FP_HIGH_CONF_KP cfg \<le> 200 then FP_CONF_HIGH cfg else FP_CONF_MIN cfg)
       (case is_precomputed t of None \<Rightarrow> False | Some b \<Rightarrow> b) sm"
proof -
  have k: "knn_match (fixture_libs j) (fixture_matrix a) (fixture_matrix (of_nat n))
           = Inr (replicate n [Fin 1, Fin 2] @ replicate (200 - n) [Fin 1, Fin 1])"
    using assms(2) by (simp add: fixture_knn_eval)
  show ?thesis
    unfolding match_feature_sets_scored [OF assms(3,4,7,8) _ _ k, simplified]
    by (simp add: Let_def ratio_test_fixture [OF assms(1)] assms(5,6,9,10,11))
qed

lemma default_threshold_200:
  "compute_threshold default_config 200 None = Inr 45"
  "compute_margin default_config 45 = Inr 4"
  "compute_margin default_config 1 = Inr 3"
  "compute_margin default_config 30 = Inr 3"
  by (simp_all add: compute_threshold_def compute_margin_def int_times_float_def
        float_to_int_def float_round_def int_to_float_bounded)

text \<open>The matcher under the stand-in libraries at the default configuration.\<close>

lemma fixture_match_default:
  assumes "n \<le> 200" "compute_threshold default_config 200 ov = Inr thr"
    "compute_margin default_config thr = Inr margin" "confidence_of (int n) thr = Inr conf"
  shows "match_feature_sets default_config (fixture_libs j) (fixture_features a)
           (fixture_features (of_nat n)) ov sm =
     acceptance_policy default_config
       (scored_payload (base_match_payload default_config 200 200) (int n) thr (thr + margin)
          conf 65 True)
       (int n) thr (thr + margin) conf 65 True sm"
  using fixture_match [where cfg = default_config and p = "fixture_features a"
      and t = "fixture_features (of_nat n)" and j = j and sm = sm,
      OF _ assms(1) _ _ _ _ _ _ assms(2,3,4)]
  by (simp add: fl_c70)

lemma base_match_payload_sel [simp]:
  "\<not> accepted (base_match_payload cfg a b)"
  "probe_quality_ok (base_match_payload cfg a b) \<longleftrightarrow> FP_MIN_KEYPOINTS_WARN cfg \<le> int a"
  "employee_id (base_match_payload cfg a b) = None"
  "all_template_scores (base_match_payload cfg a b) = None"
  by (simp_all add: base_match_payload_def)

lemma fixture_match_accept:
  assumes "n \<le> 200" "compute_threshold default_config 200 ov = Inr thr"
    "compute_margin default_config thr = Inr margin" "confidence_of (int n) thr = Inr conf"
    "score_gates default_config (int n) thr (thr + margin) True sm = Inr None" "65 \<le> conf"
  shows "match_feature_sets default_config (fixture_libs j) (fixture_features a)
           (fixture_features (of_nat n)) ov sm =
     Inr ((scored_payload (base_match_payload default_config 200 200) (int n) thr (thr + margin)
             conf 65 True)\<lparr>accepted := True, reason := Some ''match''\<rparr>)"
  unfolding fixture_match_default [OF assms(1-4)]
  using assms(5,6) by (simp add: acceptance_policy_accepts)

text \<open>
  C7 (as stated, refuted). With the override 0 the threshold is 1, not the override.
\<close>

theorem compute_threshold_override_counterexample:
  "compute_threshold default_config 200 (Some 0) = Inr 1
   \<and> (\<exists>r. match_feature_sets default_config (fixture_libs JNull) (fixture_features 0)
              (fixture_features 60) (Some 0) True = Inr r
            \<and> threshold_used r = 1 \<and> threshold_used r \<noteq> 0)"
proof -
  have t: "compute_threshold default_config 200 (Some 0) = Inr 1"
    by (simp add: compute_threshold_def)
  have c: "confidence_of (int 60) 1 = Inr 100" by (rule confidence_of_full) simp_all
  have g: "score_gates default_config 60 1 4 True True = Inr None"
    by (simp add: score_gates_strict)
  have "match_feature_sets default_config (fixture_libs JNull) (fixture_features 0)
          (fixture_features 60) (Some 0) True =
        Inr ((scored_payload (base_match_payload default_config 200 200) 60 1 4 100 65 True)
               \<lparr>accepted := True, reason := Some ''match''\<rparr>)"
    using fixture_match_accept [where a = 0 and j = JNull, OF _ t default_threshold_200(3) c] g
    by simp
  then show ?thesis using t by simp
qed

text \<open>
  C7 (amended). For every pair that reaches the scoring and for which the matcher
  returns a result: without an override the threshold of the result is the largest of
  \<open>FP_MIN_BASE\<close>, 1 and the integer part of the binary64 product of \<open>FP_MIN_PERCENT\<close>
  and the smaller keypoint count; with an override it is the larger of 1 and the
  override. The required score is the threshold plus the larger of \<open>FP_MARGIN_BASE\<close>
  and the binary64 product of the threshold and \<open>FP_MARGIN_PERCENT\<close> rounded to the
  nearest integer, a tie to the even one. The defaults are 45, 0.055, 3 and 0.10.
\<close>

theorem matcher_threshold_and_required_score:
  assumes "success p" "success t" "descriptors p = Some dp" "descriptors t = Some dt"
    "10 \<le> length dp" "10 \<le> length dt"
    and "match_feature_sets cfg lib p t ov sm = Inr r"
  shows "threshold_used r =
           (case ov of
              Some v \<Rightarrow> max 1 v
            | None \<Rightarrow>
                max (max (FP_MIN_BASE cfg)
                       (py_trunc (fl (fl (of_nat (min (keypoints p) (keypoints t)))
                                      * FP_MIN_PERCENT cfg))))
                  1)
         \<and> required_score r =
             threshold_used r
               + max (FP_MARGIN_BASE cfg)
                   (round_half_even (fl (fl (of_int (threshold_used r)) * FP_MARGIN_PERCENT cfg)))
         \<and> FP_MIN_BASE default_config = 45 \<and> FP_MIN_PERCENT default_config = fl (55 / 1000)
         \<and> FP_MARGIN_BASE default_config = 3 \<and> FP_MARGIN_PERCENT default_config = fl (10 / 100)"
proof -
  from match_feature_sets_scored_result [OF assms] obtain ms thr margin conf cr where
    thr: "compute_threshold cfg (min (keypoints p) (keypoints t)) ov = Inr thr"
    and margin: "compute_margin cfg thr = Inr margin"
    and pol: "acceptance_policy cfg
       (scored_payload (base_match_payload cfg (keypoints p) (keypoints t))
          (int (ratio_test cfg ms)) thr (thr + margin) conf
          (if FP_HIGH_CONF_KP cfg \<le> int (min (keypoints p) (keypoints t))
           then FP_CONF_HIGH cfg else FP_CONF_MIN cfg)
          (case is_precomputed t of None \<Rightarrow> False | Some b \<Rightarrow> b))
       (int (ratio_test cfg ms)) thr (thr + margin) conf
       (if FP_HIGH_CONF_KP cfg \<le> int (min (keypoints p) (keypoints t))
        then FP_CONF_HIGH cfg else FP_CONF_MIN cfg)
       (case is_precomputed t of None \<Rightarrow> False | Some b \<Rightarrow> b) sm = Inr r"
    by metis
  have a: "threshold_used r = thr" "required_score r = thr + margin"
    using acceptance_policy_fields(1,2) [OF pol] by simp_all
  show ?thesis
    unfolding a
    using compute_threshold_value [OF thr] compute_margin_value [OF margin]
    by (simp add: default_config_def)
qed

theorem matcher_threshold_and_required_score_witness:
  "\<exists>r. match_feature_sets default_config (fixture_libs JNull) (fixture_features 0)
          (fixture_features 60) None True = Inr r
       \<and> threshold_used r = 45 \<and> required_score r = 49"
proof -
  have c: "confidence_of (int 60) 45 = Inr 100" by (rule confidence_of_full) simp_all
  have g: "score_gates default_config 60 45 49 True True = Inr None"
    by (simp add: score_gates_strict)
  have "match_feature_sets default_config (fixture_libs JNull) (fixture_features 0)
          (fixture_features 60) None True =
        Inr ((scored_payload (base_match_payload default_config 200 200) 60 45 49 100 65 True)
               \<lparr>accepted := True, reason := Some ''match''\<rparr>)"
    using fixture_match_accept [where a = 0 and j = JNull, OF _ default_threshold_200(1,2) c] g
    by simp
  then obtain r where
    r: "match_feature_sets default_config (fixture_libs JNull) (fixture_features 0)
          (fixture_features 60) None True = Inr r"
    by simp
  from matcher_threshold_and_required_score
         [where p = "fixture_features 0" and t = "fixture_features 60"
            and dp = "fixture_matrix 0" and dt = "fixture_matrix 60", OF _ _ _ _ _ _ r]
  have v: "threshold_used r =
             max (max 45 (py_trunc (fl (fl 200 * FP_MIN_PERCENT default_config)))) 1"
    and q: "required_score r =
             threshold_used r
               + max 3 (round_half_even
                          (fl (fl (of_int (threshold_used r)) * FP_MARGIN_PERCENT default_config)))"
    by simp_all
  have f200: "fl 200 = (200 :: rat)" using fl_of_int [of 200] by simp
  have f45: "fl 45 = (45 :: rat)" using fl_of_int [of 45] by simp
  have p200: "fl (198158383604301825 / 18014398509481984) = (11 :: rat)"
    using to_float_Some [OF to_float_200_c055] by simp
  have p45: "fl (162129586585337865 / 36028797018963968) = (9 / 2 :: rat)"
    using to_float_Some [OF to_float_45_c10] by simp
  have t45: "threshold_used r = 45" unfolding v by (simp add: f200 p200)
  have "required_score r = 49" unfolding q t45 by (simp add: f45 p45)
  with r t45 show ?thesis by blast
qed

text \<open>
  C4 (as stated, refuted). With \<open>FP_ABS_MIN_SCORE\<close> set to 40, a precomputed template
  and the override 30, a score of 40 is accepted in strict mode and rejected in
  non-strict mode: the floor 38 of non-strict mode and its three points of margin ask
  for 41.
\<close>

theorem strict_accept_non_strict_reject_counterexample:
  "(\<exists>r. match_feature_sets (default_config\<lparr>FP_ABS_MIN_SCORE := 40\<rparr>) (fixture_libs JNull)
           (fixture_features 0) (fixture_features 40) (Some 30) True = Inr r
         \<and> accepted r)
   \<and> (\<exists>r'. match_feature_sets (default_config\<lparr>FP_ABS_MIN_SCORE := 40\<rparr>) (fixture_libs JNull)
              (fixture_features 0) (fixture_features 40) (Some 30) False = Inr r'
            \<and> \<not> accepted r' \<and> reason r' = Some ''insufficient_margin'')"
proof -
  define cfg where "cfg = default_config\<lparr>FP_ABS_MIN_SCORE := 40\<rparr>"
  have sel: "FP_RATIO cfg = fl (70 / 100)" "FP_ABS_MIN_SCORE cfg = 40"
    "FP_HIGH_CONF_KP cfg = 525" "FP_CONF_MIN cfg = 65" "FP_MIN_KEYPOINTS_WARN cfg = 160"
    by (simp_all add: cfg_def fl_c70)
  have t: "compute_threshold cfg 200 (Some 30) = Inr 30"
    by (simp add: compute_threshold_def)
  have m: "compute_margin cfg 30 = Inr 3"
    using default_threshold_200(4) by (simp add: compute_margin_def cfg_def)
  have c: "confidence_of (int 40) 30 = Inr 100" by (rule confidence_of_full) simp_all
  have e: "match_feature_sets cfg (fixture_libs JNull) (fixture_features 0)
             (fixture_features 40) (Some 30) sm =
           acceptance_policy cfg
             (scored_payload (base_match_payload cfg 200 200) 40 30 33 100 65 True)
             40 30 33 100 65 True sm" for sm
    using fixture_match [where cfg = cfg and p = "fixture_features 0"
        and t = "fixture_features (of_nat 40)" and j = JNull and sm = sm,
        OF sel(1) _ _ _ _ _ _ _ t m c]
    by (simp add: sel)
  have strict: "score_gates cfg 40 30 33 True True = Inr None"
    by (simp add: score_gates_strict sel)
  have lenient: "score_gates cfg 40 30 33 True False = Inr (Some ''insufficient_margin'')"
    by (simp add: score_gates_def sel int_times_float_def int_to_float_bounded float_to_int_def)
  have "match_feature_sets cfg (fixture_libs JNull) (fixture_features 0)
          (fixture_features 40) (Some 30) True =
        Inr ((scored_payload (base_match_payload cfg 200 200) 40 30 33 100 65 True)
               \<lparr>accepted := True, reason := Some ''match''\<rparr>)"
    unfolding e using strict by (simp add: acceptance_policy_accepts sel)
  moreover
  have "match_feature_sets cfg (fixture_libs JNull) (fixture_features 0)
          (fixture_features 40) (Some 30) False =
        Inr ((scored_payload (base_match_payload cfg 200 200) 40 30 33 100 65 True)
               \<lparr>reason := Some ''insufficient_margin''\<rparr>)"
    unfolding e using lenient by (simp add: acceptance_policy_def sel)
  ultimately show ?thesis unfolding cfg_def by simp
qed

text \<open>
  C4 (amended). When \<open>FP_ABS_MIN_SCORE\<close> is at least 41 (and below \<open>2^53\<close>; the
  default is 45), then whatever the rest of the configuration, the libraries, the
  probe, the template and the override: a pair that the matcher accepts in strict mode
  is accepted in non-strict mode.
\<close>

theorem strict_accept_implies_non_strict_accept:
  assumes "41 \<le> FP_ABS_MIN_SCORE cfg" "FP_ABS_MIN_SCORE cfg < 2 ^ 53"
    and "match_feature_sets cfg lib probe template threshold_override True = Inr r"
    and "accepted r"
  shows "\<exists>r'. match_feature_sets cfg lib probe template threshold_override False = Inr r'
              \<and> accepted r'"
proof (cases "success probe \<and> success template \<and>
    (\<exists>dp dt. descriptors probe = Some dp \<and> descriptors template = Some dt
               \<and> 10 \<le> length dp \<and> 10 \<le> length dt)")
  case False
  from match_feature_sets_unscored [OF False assms(3)] assms(4) show ?thesis by simp
next
  case True
  then obtain dp dt where d: "success probe" "success template" "descriptors probe = Some dp"
    "descriptors template = Some dt" "10 \<le> length dp" "10 \<le> length dt" by blast
  define mk where "mk = min (keypoints probe) (keypoints template)"
  define cr where "cr = (if FP_HIGH_CONF_KP cfg \<le> int mk then FP_CONF_HIGH cfg else FP_CONF_MIN cfg)"
  define ip where "ip = (case is_precomputed template of None \<Rightarrow> False | Some b \<Rightarrow> b)"
  from match_feature_sets_scored_result [OF d assms(3)] obtain ms thr margin conf where
    k: "knn_match lib dp dt = Inr ms"
    and thr: "compute_threshold cfg mk threshold_override = Inr thr"
    and margin: "compute_margin cfg thr = Inr margin"
    and conf: "confidence_of (int (ratio_test cfg ms)) thr = Inr conf"
    and pol: "acceptance_policy cfg
       (scored_payload (base_match_payload cfg (keypoints probe) (keypoints template))
          (int (ratio_test cfg ms)) thr (thr + margin) conf cr ip)
       (int (ratio_test cfg ms)) thr (thr + margin) conf cr ip True = Inr r"
    unfolding mk_def cr_def ip_def by metis
  define payload where
    "payload = scored_payload (base_match_payload cfg (keypoints probe) (keypoints template))
                 (int (ratio_test cfg ms)) thr (thr + margin) conf cr ip"
  have na: "\<not> accepted payload" by (simp add: payload_def)
  from acceptance_policy_accepted [OF na pol [folded payload_def]] assms(4)
  have q: "probe_quality_ok payload" "cr \<le> conf"
    and g: "score_gates cfg (int (ratio_test cfg ms)) thr (thr + margin) ip True = Inr None"
    by simp_all
  have "acceptance_policy cfg payload (int (ratio_test cfg ms)) thr (thr + margin) conf cr ip
          False = Inr (payload\<lparr>accepted := True, reason := Some ''match''\<rparr>)"
    by (rule acceptance_policy_accepts [OF q(1) score_gates_mono [OF assms(1,2) g] q(2)])
  then show ?thesis
    unfolding match_feature_sets_scored [OF d k]
    by (simp add: Let_def thr [unfolded mk_def] margin conf payload_def cr_def ip_def mk_def)
qed

theorem strict_accept_implies_non_strict_accept_witness:
  "\<exists>r. match_feature_sets default_config (fixture_libs JNull) (fixture_features 0)
          (fixture_features 60) None True = Inr r
       \<and> accepted r
       \<and> (\<exists>r'. match_feature_sets default_config (fixture_libs JNull) (fixture_features 0)
                  (fixture_features 60) None False = Inr r'
                 \<and> accepted r')"
proof -
  have c: "confidence_of (int 60) 45 = Inr 100" by (rule confidence_of_full) simp_all
  have g: "score_gates default_config 60 45 49 True True = Inr None"
    by (simp add: score_gates_strict)
  have "match_feature_sets default_config (fixture_libs JNull) (fixture_features 0)
          (fixture_features 60) None True =
        Inr ((scored_payload (base_match_payload default_config 200 200) 60 45 49 100 65 True)
               \<lparr>accepted := True, reason := Some ''match''\<rparr>)"
    using fixture_match_accept [where a = 0 and j = JNull, OF _ default_threshold_200(1,2) c] g
    by simp
  then obtain r where
    r: "match_feature_sets default_config (fixture_libs JNull) (fixture_features 0)
          (fixture_features 60) None True = Inr r"
    and a: "accepted r"
    by simp
  have b: "41 \<le> FP_ABS_MIN_SCORE default_config" "FP_ABS_MIN_SCORE default_config < 2 ^ 53"
    by simp_all
  from strict_accept_implies_non_strict_accept [OF b r a] r a show ?thesis by blast
qed

subsection \<open>Collecting the results of the workers\<close>

lemma to_float_100 [simp]: "to_float 100 = Some 100"
proof -
  have "to_float (of_int 100) = Some (fl (of_int 100))"
    by (rule to_float_bounded(1) [where n = 100]) simp_all
  then show ?thesis using fl_of_int [of 100] by simp
qed

lemma early_exit_default: "to_float (FP_CONF_HIGH default_config + 15) = Some 100"
  by simp

lemma collect_results_Inl:
  "outcome f = Inl e \<Longrightarrow>
   collect_results cfg kp n outcome (f # pending) d =
   collect_results cfg kp n outcome pending (d(f \<mapsto> future_error_payload cfg kp f e))"
  by simp

lemma collect_results_Inr_continue:
  "outcome f = Inr (idx, result) \<Longrightarrow>
   \<not> (reaches_early_exit cfg result \<and> 3 \<le> n) \<Longrightarrow>
   collect_results cfg kp n outcome (f # pending) d =
   collect_results cfg kp n outcome pending (d(idx \<mapsto> result))"
  by (auto simp: Let_def)

lemma collect_results_Inr_break:
  "outcome f = Inr (idx, result) \<Longrightarrow>
   reaches_early_exit cfg result \<and> 3 \<le> n \<Longrightarrow>
   collect_results cfg kp n outcome (f # pending) d = (d(idx \<mapsto> result), True)"
  by (auto simp: Let_def)

lemma collect_results_dom_mono:
  "k \<in> dom d \<Longrightarrow> k \<in> dom (fst (collect_results cfg kp n outcome order d))"
proof (induction order arbitrary: d)
  case Nil
  then show ?case by simp
next
  case (Cons f pending)
  show ?case
  proof (cases "outcome f")
    case (Inl e)
    define d' where "d' = d(f \<mapsto> future_error_payload cfg kp f e)"
    have "k \<in> dom d'" using Cons.prems by (auto simp: d'_def)
    then have "k \<in> dom (fst (collect_results cfg kp n outcome pending d'))" by (rule Cons.IH)
    then show ?thesis
      unfolding collect_results_Inl [where outcome = outcome and f = f, OF Inl] d'_def .
  next
    case (Inr p)
    obtain idx result where p: "outcome f = Inr (idx, result)" using Inr by (cases p) auto
    define d' where "d' = d(idx \<mapsto> result)"
    have kd: "k \<in> dom d'" using Cons.prems by (auto simp: d'_def)
    show ?thesis
    proof (cases "reaches_early_exit cfg result \<and> 3 \<le> n")
      case True
      show ?thesis
        unfolding collect_results_Inr_break [where outcome = outcome and f = f, OF p True] fst_conv
        using kd unfolding d'_def .
    next
      case False
      have "k \<in> dom (fst (collect_results cfg kp n outcome pending d'))" using kd by (rule Cons.IH)
      then show ?thesis
        unfolding collect_results_Inr_continue [where outcome = outcome and f = f, OF p False] d'_def .
    qed
  qed
qed

lemma collect_results_flag:
  "snd (collect_results cfg kp n outcome order d) \<Longrightarrow>
   3 \<le> n \<and> (\<exists>f \<in> set order. \<exists>idx result. outcome f = Inr (idx, result)
                 \<and> reaches_early_exit cfg result)"
proof (induction order arbitrary: d)
  case Nil
  then show ?case by simp
next
  case (Cons f pending)
  show ?case
  proof (cases "outcome f")
    case (Inl e)
    from Cons.prems have "snd (collect_results cfg kp n outcome pending (d(f \<mapsto> future_error_payload cfg kp f e)))"
      unfolding collect_results_Inl [where outcome = outcome and f = f, OF Inl] .
    from Cons.IH [OF this] show ?thesis by auto
  next
    case (Inr p)
    obtain idx result where p: "outcome f = Inr (idx, result)" using Inr by (cases p) auto
    show ?thesis
    proof (cases "reaches_early_exit cfg result \<and> 3 \<le> n")
      case True
      with p show ?thesis by auto
    next
      case False
      from Cons.prems have "snd (collect_results cfg kp n outcome pending (d(idx \<mapsto> result)))"
        unfolding collect_results_Inr_continue [where outcome = outcome and f = f, OF p False] .
      from Cons.IH [OF this] show ?thesis by auto
    qed
  qed
qed

lemma collect_results_all:
  "\<not> snd (collect_results cfg kp n outcome order d) \<Longrightarrow> f \<in> set order \<Longrightarrow>
   stored_key outcome f \<in> dom (fst (collect_results cfg kp n outcome order d))"
proof (induction order arbitrary: d)
  case Nil
  then show ?case by simp
next
  case (Cons g pending)
  show ?case
  proof (cases "outcome g")
    case (Inl e)
    define d' where "d' = d(g \<mapsto> future_error_payload cfg kp g e)"
    have eq: "collect_results cfg kp n outcome (g # pending) d = collect_results cfg kp n outcome pending d'"
      unfolding d'_def by (rule collect_results_Inl [where outcome = outcome and f = g, OF Inl])
    have ns: "\<not> snd (collect_results cfg kp n outcome pending d')" using Cons.prems(1) unfolding eq .
    show ?thesis
    proof (cases "f = g")
      case True
      have "g \<in> dom d'" by (simp add: d'_def)
      then have "g \<in> dom (fst (collect_results cfg kp n outcome pending d'))"
        by (rule collect_results_dom_mono)
      then show ?thesis unfolding eq using True Inl by (simp add: stored_key_def)
    next
      case False
      then have "f \<in> set pending" using Cons.prems(2) by simp
      from Cons.IH [OF ns this] show ?thesis unfolding eq .
    qed
  next
    case (Inr p)
    obtain idx result where p: "outcome g = Inr (idx, result)" using Inr by (cases p) auto
    define d' where "d' = d(idx \<mapsto> result)"
    have nobreak: "\<not> (reaches_early_exit cfg result \<and> 3 \<le> n)"
    proof
      assume b: "reaches_early_exit cfg result \<and> 3 \<le> n"
      from Cons.prems(1) show False unfolding collect_results_Inr_break [where outcome = outcome and f = g, OF p b] by simp
    qed
    have eq: "collect_results cfg kp n outcome (g # pending) d = collect_results cfg kp n outcome pending d'"
      unfolding d'_def by (rule collect_results_Inr_continue [where outcome = outcome and f = g, OF p nobreak])
    have ns: "\<not> snd (collect_results cfg kp n outcome pending d')" using Cons.prems(1) unfolding eq .
    show ?thesis
    proof (cases "f = g")
      case True
      have "idx \<in> dom d'" by (simp add: d'_def)
      then have "idx \<in> dom (fst (collect_results cfg kp n outcome pending d'))"
        by (rule collect_results_dom_mono)
      then show ?thesis unfolding eq using True p by (simp add: stored_key_def)
    next
      case False
      then have "f \<in> set pending" using Cons.prems(2) by simp
      from Cons.IH [OF ns this] show ?thesis unfolding eq .
    qed
  qed
qed

text \<open>
  C9. Take the futures in any order of completion. The loop stops collecting (and
  cancels what is pending) only if the number of templates is at least 3 and a
  collected result is accepted with confidence at least \<open>FP_CONF_HIGH + 15\<close> (a float
  sum; 100 at the default configuration). When it does not stop, the result of every
  future is collected; and with exactly 2 templates it never stops, so both are
  collected.
\<close>

theorem early_exit_needs_three_templates:
  "(snd (collect_results cfg kp n outcome order d) \<longrightarrow>
      3 \<le> n \<and> (\<exists>f \<in> set order. \<exists>idx result. outcome f = Inr (idx, result) \<and> accepted result
                    \<and> (\<exists>c. to_float (FP_CONF_HIGH cfg + 15) = Some c \<and> c \<le> confidence result)))
   \<and> (\<not> snd (collect_results cfg kp n outcome order d) \<longrightarrow>
      (\<forall>f \<in> set order. stored_key outcome f \<in> dom (fst (collect_results cfg kp n outcome order d))))
   \<and> (n = 2 \<longrightarrow>
      \<not> snd (collect_results cfg kp n outcome order d)
      \<and> (\<forall>f \<in> set order. stored_key outcome f \<in> dom (fst (collect_results cfg kp n outcome order d))))
   \<and> to_float (FP_CONF_HIGH default_config + 15) = Some 100"
proof -
  have r: "reaches_early_exit cfg result \<longleftrightarrow>
             accepted result
             \<and> (\<exists>c. to_float (FP_CONF_HIGH cfg + 15) = Some c \<and> c \<le> confidence result)"
    for result
    by (auto simp: reaches_early_exit_def early_exit_confidence_def split: option.splits)
  have a: "snd (collect_results cfg kp n outcome order d) \<longrightarrow>
      3 \<le> n \<and> (\<exists>f \<in> set order. \<exists>idx result. outcome f = Inr (idx, result) \<and> accepted result
                    \<and> (\<exists>c. to_float (FP_CONF_HIGH cfg + 15) = Some c \<and> c \<le> confidence result))"
    using collect_results_flag [of cfg kp n outcome order d] unfolding r by blast
  have b: "\<not> snd (collect_results cfg kp n outcome order d) \<longrightarrow>
      (\<forall>f \<in> set order. stored_key outcome f \<in> dom (fst (collect_results cfg kp n outcome order d)))"
    using collect_results_all by blast
  have c: "n = 2 \<longrightarrow> \<not> snd (collect_results cfg kp n outcome order d)"
    using a by auto
  have e: "to_float (FP_CONF_HIGH default_config + 15) = Some 100"
    by (rule early_exit_default)
  from a b c e show ?thesis by blast
qed

theorem early_exit_needs_three_templates_witness:
  "snd (collect_results default_config 200 3 (\<lambda>f. Inr (f, fixture_hit)) [1, 0, 2] Map.empty)
   \<and> (3::nat) \<le> 3
   \<and> \<not> snd (collect_results default_config 200 2 (\<lambda>f. Inr (f, fixture_hit)) [1, 0] Map.empty)
   \<and> dom (fst (collect_results default_config 200 2 (\<lambda>f. Inr (f, fixture_hit)) [1, 0] Map.empty))
       = {0, 1}"
proof -
  have hit: "reaches_early_exit default_config fixture_hit"
    by (simp add: reaches_early_exit_def early_exit_confidence_def fixture_hit_def)
  have three: "snd (collect_results default_config 200 3 (\<lambda>f. Inr (f, fixture_hit)) [1, 0, 2]
                      Map.empty)"
    using hit by (simp add: Let_def)
  have two: "\<not> snd (collect_results default_config 200 2 (\<lambda>f. Inr (f, fixture_hit)) [1, 0]
                        Map.empty)"
    and both: "\<forall>f \<in> set [1, 0]. stored_key (\<lambda>f. Inr (f, fixture_hit)) f
                 \<in> dom (fst (collect_results default_config 200 2 (\<lambda>f. Inr (f, fixture_hit))
                               [1, 0] Map.empty))"
    using early_exit_needs_three_templates
            [of default_config 200 2 "\<lambda>f. Inr (f, fixture_hit)" "[1, 0]" Map.empty] by auto
  have "3 \<le> (3::nat)"
    using early_exit_needs_three_templates
            [of default_config 200 3 "\<lambda>f. Inr (f, fixture_hit)" "[1, 0, 2]" Map.empty] three
    by blast
  moreover
  have "dom (fst (collect_results default_config 200 2 (\<lambda>f. Inr (f, fixture_hit)) [1, 0]
                    Map.empty)) = {0, 1}"
    using hit by (auto simp: Let_def)
  ultimately show ?thesis using three two by blast
qed

end
